theory Spec2Isabelle
  imports Main "HOL-Library.AList"
begin

section \<open>JavaScript values and strings\<close>

text \<open>
  The server is TypeScript on Node and Express. A JavaScript string is modelled as a
  \<^typ>\<open>string\<close>: the list of its UTF-16 code units, each of which the model takes to be below
  256 (the Latin-1 range, U+0000 to U+00FF). On that range the character classes, the case
  mapping and the UTF-8 byte length below are those of JavaScript and Node; strings with code
  units from 256 on are outside the model. Numbers that the modelled code handles are integers
  (millisecond clock readings, counters), so they are \<^typ>\<open>int\<close>.

  A field of a JSON request body, or a parameter of the parsed query string, is absent
  (\<open>undefined\<close>), \<open>null\<close>, a string, or a value of another kind (a number, a boolean, an array
  or an object). Of a value of another kind the modelled code reads only the truthiness, which
  \<open>NonString\<close> carries. Headers are absent or a string.
\<close>

datatype jsval = Undefined | Null | Str string | NonString bool

text \<open>\<open>a ?? b\<close>: the right operand replaces \<open>undefined\<close> and \<open>null\<close> only.\<close>

fun nullish :: "jsval \<Rightarrow> jsval \<Rightarrow> jsval" where
  "nullish Undefined b = b"
| "nullish Null b = b"
| "nullish (Str s) b = Str s"
| "nullish (NonString t) b = NonString t"

text \<open>The string a field holds; used only after the field was checked to hold one.\<close>

fun str_of :: "jsval \<Rightarrow> string" where
  "str_of (Str s) = s"
| "str_of Undefined = []"
| "str_of Null = []"
| "str_of (NonString t) = []"

text \<open>\<open>typeof v !== "string"\<close> for a value that is neither \<open>undefined\<close> nor \<open>null\<close>.\<close>

fun non_string :: "jsval \<Rightarrow> bool" where
  "non_string (NonString t) = True"
| "non_string Undefined = False"
| "non_string Null = False"
| "non_string (Str s) = False"

text \<open>\<open>!v\<close> for a body field or query parameter.\<close>

fun falsy :: "jsval \<Rightarrow> bool" where
  "falsy Undefined = True"
| "falsy Null = True"
| "falsy (Str s) = (s = [])"
| "falsy (NonString t) = (\<not> t)"

text \<open>Truthiness of a header or a stored optional string: absent and the empty string are falsy.\<close>

fun truthy :: "string option \<Rightarrow> bool" where
  "truthy None = False"
| "truthy (Some s) = (s \<noteq> [])"

text \<open>\<open>a || b\<close> where \<open>b\<close> is a string.\<close>

fun or_else :: "string option \<Rightarrow> string \<Rightarrow> string" where
  "or_else None b = b"
| "or_else (Some s) b = (if s = [] then b else s)"

text \<open>
  White space as \<open>String.prototype.trim\<close> and the class \<open>\s\<close> of a regular expression take
  it (\<open>WhiteSpace\<close> and \<open>LineTerminator\<close> of ECMAScript): below 256 these are the tab, line
  feed, vertical tab, form feed, carriage return, the space and the no-break space U+00A0.
\<close>

definition is_space :: "char \<Rightarrow> bool" where
  "is_space c =
     (c \<in> {CHR 0x09, CHR 0x0A, CHR 0x0B, CHR 0x0C, CHR 0x0D, CHR '' '', CHR 0xA0})"

definition trim :: "string \<Rightarrow> string" where
  "trim s = rev (dropWhile is_space (rev (dropWhile is_space s)))"

text \<open>
  \<open>String.prototype.toLowerCase\<close> on one code unit below 256: the letters \<open>A\<close> to \<open>Z\<close> and
  the letters U+00C0 to U+00DE (all but the multiplication sign U+00D7) move up by 32, and
  every other code unit is its own lower case.
\<close>

definition lower_char :: "char \<Rightarrow> char" where
  "lower_char c =
     (let n = of_char c :: nat in
      if (65 \<le> n \<and> n \<le> 90) \<or> (192 \<le> n \<and> n \<le> 222 \<and> n \<noteq> 215)
      then char_of (n + 32) else c)"

definition toLowerCase :: "string \<Rightarrow> string" where
  "toLowerCase s = map lower_char s"

text \<open>
  The number of bytes of \<open>Buffer.from(s)\<close>, the UTF-8 encoding of \<open>s\<close>: one byte for a code
  unit below 128 and two for a code unit from 128 to 255.
\<close>

definition utf8_length :: "string \<Rightarrow> nat" where
  "utf8_length s = length s + length (filter (\<lambda>c. (128::nat) \<le> of_char c) s)"

text \<open>Decimal rendering of an integer, as a template literal prints it.\<close>

fun show_nat :: "nat \<Rightarrow> string" where
  "show_nat n =
     (if n < 10 then [char_of (48 + n)]
      else show_nat (n div 10) @ [char_of (48 + n mod 10)])"

definition show_int :: "int \<Rightarrow> string" where
  "show_int i = (if i < 0 then CHR ''-'' # show_nat (nat (- i)) else show_nat (nat i))"

text \<open>\<open>Math.ceil(d / 1000)\<close> for an integer \<open>d\<close>.\<close>

definition ceil_div_1000 :: "int \<Rightarrow> int" where
  "ceil_div_1000 d = (d + 999) div 1000"

section \<open>Requests, responses and middleware\<close>

datatype json = JNull | JStr string | JNum int | JObj "(string \<times> json) list"

record response =
  status :: nat
  body :: json

text \<open>
  A middleware or handler ends in one of three ways: it calls \<open>next()\<close>, it sends a
  response, or an exception leaves it (for a handler: \<open>next(err)\<close>), which Express passes to
  its error handler.
\<close>

datatype exn = RangeError | TypeError | LibError string

datatype outcome = Next | Respond response | Throw exn

record user_claims =
  claim_id :: string
  claim_username :: string
  claim_role :: "string option"

record request =
  ip :: "string option"
  remoteAddress :: "string option"
  user :: "user_claims option"
  x_api_key :: "string option"
  origin :: "string option"
  referer :: "string option"
  body_username :: jsval
  body_email :: jsval
  body_password :: jsval
  body_name :: jsval
  body_interests :: jsval
  query_token :: jsval
  query_email :: jsval

section \<open>Rate limiting\<close>

record rate_window =
  count :: int
  resetTime :: int

type_synonym rate_map = "string \<rightharpoonup> rate_window"

text \<open>\<open>rateLimitByUser(maxRequests, windowMs)\<close>, with \<open>now = Date.now()\<close>.\<close>

definition user_limit_response :: "int \<Rightarrow> response" where
  "user_limit_response secs =
     \<lparr>status = 429,
      body = JObj [(''error'', JStr ''Rate limit exceeded''),
                   (''message'', JStr (''Too many requests. Try again in '' @ show_int secs
                                        @ '' seconds.''))]\<rparr>"

definition rateLimitByUser ::
  "int \<Rightarrow> int \<Rightarrow> int \<Rightarrow> request \<Rightarrow> rate_map \<Rightarrow> outcome \<times> rate_map" where
  "rateLimitByUser maxRequests windowMs now req userRequestCounts =
     (let userId = or_else (map_option claim_id (user req)) (or_else (ip req) ''anonymous'')
      in case userRequestCounts userId of
           None \<Rightarrow>
             (Next, userRequestCounts(userId \<mapsto> \<lparr>count = 1, resetTime = now + windowMs\<rparr>))
         | Some userStats \<Rightarrow>
             if now > resetTime userStats then
               (Next, userRequestCounts(userId \<mapsto> \<lparr>count = 1, resetTime = now + windowMs\<rparr>))
             else if count userStats \<ge> maxRequests then
               (Respond (user_limit_response (ceil_div_1000 (resetTime userStats - now))),
                userRequestCounts)
             else
               (Next, userRequestCounts(userId \<mapsto> userStats\<lparr>count := count userStats + 1\<rparr>)))"

text \<open>\<open>strictRateLimitByIP(maxRequests, windowMs)\<close>.\<close>

definition clientIP :: "request \<Rightarrow> string" where
  "clientIP req = or_else (ip req) (or_else (remoteAddress req) ''unknown'')"

definition ip_limit_response :: "int \<Rightarrow> response" where
  "ip_limit_response timeLeft =
     \<lparr>status = 429,
      body = JObj [(''error'', JStr ''Rate limit exceeded''),
                   (''message'', JStr (''Too many requests from this IP. Try again in ''
                                        @ show_int timeLeft @ '' seconds.'')),
                   (''retryAfter'', JNum timeLeft)]\<rparr>"

definition strictRateLimitByIP ::
  "int \<Rightarrow> int \<Rightarrow> int \<Rightarrow> request \<Rightarrow> rate_map \<Rightarrow> outcome \<times> rate_map" where
  "strictRateLimitByIP maxRequests windowMs now req ipRequestCounts =
     (case ipRequestCounts (clientIP req) of
        None \<Rightarrow>
          (Next, ipRequestCounts(clientIP req \<mapsto> \<lparr>count = 1, resetTime = now + windowMs\<rparr>))
      | Some ipStats \<Rightarrow>
          if now > resetTime ipStats then
            (Next, ipRequestCounts(clientIP req \<mapsto> \<lparr>count = 1, resetTime = now + windowMs\<rparr>))
          else if count ipStats \<ge> maxRequests then
            (Respond (ip_limit_response (ceil_div_1000 (resetTime ipStats - now))),
             ipRequestCounts)
          else
            (Next, ipRequestCounts(clientIP req \<mapsto> ipStats\<lparr>count := count ipStats + 1\<rparr>)))"

section \<open>Configuration, libraries and per-request inputs\<close>

text \<open>
  The constants read from the process environment when the module loads
  (\<open>API_KEY\<close>, \<open>ALLOWED_ORIGINS\<close>, \<open>JWT_EXPIRES_IN\<close>, \<open>NODE_ENV\<close>).
\<close>

record config =
  API_KEY :: string
  ALLOWED_ORIGINS :: "string list"
  JWT_EXPIRES_IN :: string
  production :: bool

text \<open>
  Third-party and platform functions the repository calls but does not contain. They are
  parameters of the model: \<open>bcrypt.hash\<close> (with the salt it draws made an argument),
  \<open>bcrypt.compare\<close> (which may reject, and which receives the password field of the body as
  it came, a string or not), \<open>jwt.sign\<close> under the configured secret (payload, \<open>expiresIn\<close>,
  issue time), the SHA-256 hex digest, and the origin (\<open>protocol//host\<close>) that \<open>new URL\<close>
  reads from a string, \<open>None\<close> when it throws.
\<close>

record lib =
  bcrypt_hash :: "string \<Rightarrow> string \<Rightarrow> string"
  bcrypt_compare :: "jsval \<Rightarrow> string \<Rightarrow> exn + bool"
  jwt_sign :: "json \<Rightarrow> string \<Rightarrow> int \<Rightarrow> string"
  sha256_hex :: "string \<Rightarrow> string"
  url_origin :: "string \<Rightarrow> string option"

text \<open>
  What one request reads from the clock and the random sources: \<open>Date.now()\<close> (one reading
  per request), \<open>randomUUID()\<close>, the identifier cut from \<open>Math.random()\<close>, the salt of
  \<open>bcrypt.hash\<close> and the bytes of \<open>generateVerificationToken\<close> in hex.
\<close>

record env =
  now :: int
  fresh_uuid :: string
  fresh_short_id :: string
  fresh_salt :: string
  fresh_token :: string

section \<open>Storage (MemStorage)\<close>

text \<open>
  Time stamps are stored by the code as ISO strings and read back with \<open>new Date\<close>; the model
  keeps the millisecond value.
\<close>

record User =
  u_id :: string
  u_username :: string
  u_password :: string
  u_role :: string
  u_emailVerified :: "int option"
  u_emailVerificationToken :: "string option"
  u_emailVerificationExpires :: "int option"
  u_createdAt :: int
  u_updatedAt :: int

record WaitlistEntry =
  w_id :: string
  w_email :: string
  w_name :: string
  w_interests :: "string option"
  w_createdAt :: int
  w_emailVerified :: "int option"
  w_emailVerificationToken :: "string option"
  w_emailVerificationExpires :: "int option"

text \<open>The object \<open>createUser\<close> receives, and the \<open>entryData\<close> object \<open>createWaitlistEntry\<close> receives.\<close>

record InsertUser =
  iu_username :: string
  iu_password :: string
  iu_role :: "string option"

record entryData =
  ed_name :: string
  ed_email :: string
  ed_interests :: "string option"
  ed_emailVerified :: "int option"
  ed_emailVerificationToken :: "string option"
  ed_emailVerificationExpires :: "int option"

text \<open>
  The process-wide mutable state: the two rate-limit maps and the two maps of
  \<open>MemStorage\<close>, kept as association lists in insertion order (\<open>users\<close> by id,
  \<open>waitlistEntries\<close> by email).
\<close>

record server_state =
  userRequestCounts :: rate_map
  ipRequestCounts :: rate_map
  users :: "(string \<times> User) list"
  waitlistEntries :: "(string \<times> WaitlistEntry) list"

definition getUserByUsername :: "server_state \<Rightarrow> string \<Rightarrow> User option" where
  "getUserByUsername st username =
     find (\<lambda>user. u_username user = username) (map snd (users st))"

definition createUser :: "env \<Rightarrow> InsertUser \<Rightarrow> server_state \<Rightarrow> User \<times> server_state" where
  "createUser e insertUser st =
     (let newUser = \<lparr>u_id = fresh_uuid e,
                      u_username = iu_username insertUser,
                      u_password = iu_password insertUser,
                      u_role = or_else (iu_role insertUser) ''user'',
                      u_emailVerified = None,
                      u_emailVerificationToken = None,
                      u_emailVerificationExpires = None,
                      u_createdAt = now e,
                      u_updatedAt = now e\<rparr>
      in (newUser, st\<lparr>users := AList.update (u_id newUser) newUser (users st)\<rparr>))"

definition createWaitlistEntry ::
  "env \<Rightarrow> entryData \<Rightarrow> server_state \<Rightarrow> WaitlistEntry \<times> server_state" where
  "createWaitlistEntry e entry st =
     (let waitlistEntry = \<lparr>w_id = fresh_short_id e,
                            w_email = ed_email entry,
                            w_name = ed_name entry,
                            w_interests = (if truthy (ed_interests entry) then ed_interests entry
                                           else None),
                            w_createdAt = now e,
                            w_emailVerified = None,
                            w_emailVerificationToken = None,
                            w_emailVerificationExpires = None\<rparr>
      in (waitlistEntry,
          st\<lparr>waitlistEntries :=
               AList.update (w_email waitlistEntry) waitlistEntry (waitlistEntries st)\<rparr>))"

definition getWaitlistEntryByEmail :: "server_state \<Rightarrow> string \<Rightarrow> WaitlistEntry option" where
  "getWaitlistEntryByEmail st email = map_of (waitlistEntries st) email"

text \<open>\<open>token || null\<close>: an empty token is stored as null.\<close>

definition or_null :: "string option \<Rightarrow> string option" where
  "or_null token = (if truthy token then token else None)"

definition updateWaitlistVerification ::
  "env \<Rightarrow> string \<Rightarrow> bool \<Rightarrow> string option \<Rightarrow> int option \<Rightarrow> server_state \<Rightarrow> server_state" where
  "updateWaitlistVerification e email verified token expires st =
     st\<lparr>waitlistEntries :=
          AList.map_entry email
            (\<lambda>entry. entry\<lparr>w_emailVerified := (if verified then Some (now e) else None),
                            w_emailVerificationToken := or_null token,
                            w_emailVerificationExpires := expires\<rparr>)
            (waitlistEntries st)\<rparr>"

text \<open>The first element that satisfies \<open>p\<close> is replaced: \<open>find\<close>, then mutation of the object found.\<close>

fun update_first :: "('a \<Rightarrow> bool) \<Rightarrow> ('a \<Rightarrow> 'a) \<Rightarrow> 'a list \<Rightarrow> 'a list" where
  "update_first p f [] = []"
| "update_first p f (x # xs) = (if p x then f x # xs else x # update_first p f xs)"

definition updateUserVerification ::
  "env \<Rightarrow> string \<Rightarrow> bool \<Rightarrow> string option \<Rightarrow> int option \<Rightarrow> server_state \<Rightarrow> server_state" where
  "updateUserVerification e email verified token expires st =
     st\<lparr>users :=
          update_first (\<lambda>(k, u). u_username u = email)
            (\<lambda>(k, u). (k, u\<lparr>u_emailVerified := (if verified then Some (now e) else None),
                               u_emailVerificationToken := or_null token,
                               u_emailVerificationExpires := expires\<rparr>))
            (users st)\<rparr>"

section \<open>Gateway middleware\<close>

definition message_body :: "string \<Rightarrow> json" where
  "message_body m = JObj [(''message'', JStr m)]"

definition error_body :: "string \<Rightarrow> string \<Rightarrow> json" where
  "error_body err m = JObj [(''error'', JStr err), (''message'', JStr m)]"

definition requireApiKey :: "config \<Rightarrow> request \<Rightarrow> outcome" where
  "requireApiKey cfg req =
     (if \<not> truthy (x_api_key req) then
        Respond \<lparr>status = 401,
                 body = error_body ''API key required''
                          ''Please provide a valid API key in the x-api-key header''\<rparr>
      else if x_api_key req \<noteq> Some (API_KEY cfg) then
        Respond \<lparr>status = 403,
                 body = error_body ''Invalid API key'' ''The provided API key is not valid''\<rparr>
      else Next)"

definition origin_denied :: response where
  "origin_denied =
     \<lparr>status = 403,
      body = error_body ''Origin not allowed'' ''Requests from this origin are not permitted''\<rparr>"

definition validateOrigin :: "config \<Rightarrow> lib \<Rightarrow> request \<Rightarrow> outcome" where
  "validateOrigin cfg l req =
     (if \<not> truthy (origin req) \<and> \<not> truthy (referer req) \<and> \<not> production cfg then Next
      else if truthy (origin req) \<and> the (origin req) \<in> set (ALLOWED_ORIGINS cfg) then Next
      else if truthy (referer req) then
        (case url_origin l (the (referer req)) of
           None \<Rightarrow> Throw TypeError
         | Some refererOrigin \<Rightarrow>
             if refererOrigin \<in> set (ALLOWED_ORIGINS cfg) then Next else Respond origin_denied)
      else Respond origin_denied)"

text \<open>\<open>logAuthenticatedRequest\<close> writes a log line when \<open>req.user\<close> is set and calls \<open>next()\<close>.\<close>

definition logAuthenticatedRequest :: "request \<Rightarrow> outcome" where
  "logAuthenticatedRequest req = Next"

type_synonym middleware = "request \<Rightarrow> server_state \<Rightarrow> outcome \<times> server_state"

definition stateless :: "(request \<Rightarrow> outcome) \<Rightarrow> middleware" where
  "stateless f req st = (f req, st)"

definition on_userRequestCounts ::
  "(request \<Rightarrow> rate_map \<Rightarrow> outcome \<times> rate_map) \<Rightarrow> middleware" where
  "on_userRequestCounts f req st =
     (case f req (userRequestCounts st) of (out, m) \<Rightarrow> (out, st\<lparr>userRequestCounts := m\<rparr>))"

definition on_ipRequestCounts ::
  "(request \<Rightarrow> rate_map \<Rightarrow> outcome \<times> rate_map) \<Rightarrow> middleware" where
  "on_ipRequestCounts f req st =
     (case f req (ipRequestCounts st) of (out, m) \<Rightarrow> (out, st\<lparr>ipRequestCounts := m\<rparr>))"

text \<open>
  Express runs the functions registered for a route in order; each one runs only when the
  one before it called \<open>next()\<close>.
\<close>

fun run_chain :: "middleware list \<Rightarrow> middleware" where
  "run_chain [] req st = (Next, st)"
| "run_chain (m # ms) req st =
     (case m req st of
        (Next, st') \<Rightarrow> run_chain ms req st'
      | (out, st') \<Rightarrow> (out, st'))"

text \<open>
  The error handler that \<open>index.ts\<close> registers after the routes answers an exception that
  reached \<open>next\<close> with the status \<open>err.status || err.statusCode || 500\<close> (and with the
  message of the error as body, which the model leaves out); the one of \<open>api-server.ts\<close>
  answers with 500 throughout. The exceptions of the model, a \<open>RangeError\<close> or \<open>TypeError\<close>
  of the platform and an \<open>Error\<close> of a library, have neither property, so their status is
  500. \<open>sent_status\<close> is the status that the client is sent when a chain has ended.
\<close>

definition error_status :: "exn \<Rightarrow> nat" where
  "error_status err = 500"

fun sent_status :: "outcome \<Rightarrow> nat option" where
  "sent_status Next = None"
| "sent_status (Respond r) = Some (status r)"
| "sent_status (Throw err) = Some (error_status err)"

section \<open>Schemas\<close>

text \<open>
  The pattern \<open>/^[^\s@]+@[^\s@]+\.[^\s@]+$/\<close>: a non-empty run of characters that are neither
  white space nor \<open>@\<close>, an \<open>@\<close>, and a run of such characters that holds a dot with at least
  one character on each side of it.
\<close>

definition email_char :: "char \<Rightarrow> bool" where
  "email_char c = (\<not> is_space c \<and> c \<noteq> CHR ''@'')"

definition emailRegex_test :: "string \<Rightarrow> bool" where
  "emailRegex_test v =
     (case dropWhile email_char v of
        [] \<Rightarrow> False
      | c # rest \<Rightarrow>
          takeWhile email_char v \<noteq> [] \<and> c = CHR ''@'' \<and> list_all email_char rest \<and>
          CHR ''.'' \<in> set (butlast (tl rest)))"

definition insertUserSchema_ok :: "string \<Rightarrow> jsval \<Rightarrow> bool" where
  "insertUserSchema_ok username password =
     (1 \<le> length username \<and> emailRegex_test username \<and>
      (case password of Str p \<Rightarrow> 6 \<le> length p | _ \<Rightarrow> False))"

definition insertWaitlistSchema_ok :: "jsval \<Rightarrow> jsval \<Rightarrow> jsval \<Rightarrow> bool" where
  "insertWaitlistSchema_ok name email interests =
     ((case name of Str n \<Rightarrow> 1 \<le> length n | _ \<Rightarrow> False) \<and>
      (case email of Str m \<Rightarrow> 1 \<le> length m \<and> emailRegex_test m | _ \<Rightarrow> False) \<and>
      (case interests of Undefined \<Rightarrow> True | Str i \<Rightarrow> True | _ \<Rightarrow> False))"

section \<open>Passwords and tokens\<close>

definition passwordUtils_hash :: "lib \<Rightarrow> env \<Rightarrow> string \<Rightarrow> string" where
  "passwordUtils_hash l e password = bcrypt_hash l (fresh_salt e) password"

definition passwordUtils_verify :: "lib \<Rightarrow> jsval \<Rightarrow> string \<Rightarrow> exn + bool" where
  "passwordUtils_verify l password hash = bcrypt_compare l password hash"

definition generateToken :: "config \<Rightarrow> lib \<Rightarrow> env \<Rightarrow> user_claims \<Rightarrow> string" where
  "generateToken cfg l e u =
     jwt_sign l
       (JObj [(''id'', JStr (claim_id u)),
              (''username'', JStr (claim_username u)),
              (''role'', JStr (or_else (claim_role u) ''user''))])
       (JWT_EXPIRES_IN cfg) (now e)"

definition generateRefreshToken :: "lib \<Rightarrow> env \<Rightarrow> string \<Rightarrow> string" where
  "generateRefreshToken l e userId =
     jwt_sign l (JObj [(''id'', JStr userId), (''type'', JStr ''refresh'')]) ''7d'' (now e)"

section \<open>Verification tokens\<close>

definition generateVerificationToken :: "env \<Rightarrow> string" where
  "generateVerificationToken e = fresh_token e"

text \<open>\<open>setHours(getHours() + 24)\<close>, taken as 24 hours of clock time (no change of zone offset).\<close>

definition createVerificationExpiry :: "env \<Rightarrow> int" where
  "createVerificationExpiry e = now e + 24 * 60 * 60 * 1000"

definition isVerificationExpired :: "env \<Rightarrow> int \<Rightarrow> bool" where
  "isVerificationExpired e expiryDate = (now e > expiryDate)"

definition hashVerificationToken :: "lib \<Rightarrow> string \<Rightarrow> string" where
  "hashVerificationToken l token = sha256_hex l token"

text \<open>
  Node's \<open>crypto.timingSafeEqual\<close> on \<open>Buffer.from(a)\<close> and \<open>Buffer.from(b)\<close>: it throws a
  \<open>RangeError\<close> when the byte lengths of the two buffers differ, and otherwise tells whether
  the bytes are equal, which for UTF-8 encodings is whether the strings are.
\<close>

definition timingSafeEqual :: "string \<Rightarrow> string \<Rightarrow> exn + bool" where
  "timingSafeEqual a b =
     (if utf8_length a \<noteq> utf8_length b then Inl RangeError else Inr (a = b))"

definition verifyTokenHash :: "lib \<Rightarrow> string \<Rightarrow> string \<Rightarrow> exn + bool" where
  "verifyTokenHash l token hash =
     (let tokenHash = hashVerificationToken l token in timingSafeEqual tokenHash hash)"

section \<open>Route handlers\<close>

text \<open>
  The e-mails a handler sends are started without being awaited and their failures are only
  logged, so they change neither the response nor the state and are left out.
\<close>

text \<open>
  \<open>rawUser ?? email ?? ""\<close>, and \<open>(rawUser ?? email ?? "").trim().toLowerCase()\<close> when that
  value is a string. When it is not, it has no method \<open>trim\<close>: the call throws a \<open>TypeError\<close>,
  which the handler's \<open>catch\<close> passes to \<open>next\<close>.
\<close>

definition raw_username :: "request \<Rightarrow> jsval" where
  "raw_username req = nullish (nullish (body_username req) (body_email req)) (Str [])"

definition normalized_username :: "request \<Rightarrow> string" where
  "normalized_username req = toLowerCase (trim (str_of (raw_username req)))"

definition user_json :: "string \<Rightarrow> string \<Rightarrow> string \<Rightarrow> json" where
  "user_json i n r = JObj [(''id'', JStr i), (''username'', JStr n), (''role'', JStr r)]"

definition register_handler :: "config \<Rightarrow> lib \<Rightarrow> env \<Rightarrow> middleware" where
  "register_handler cfg l e req st =
     (if non_string (raw_username req) then (Throw TypeError, st) else
      let username = normalized_username req; password = body_password req in
      if \<not> insertUserSchema_ok username password then
        (Respond \<lparr>status = 400, body = message_body ''Invalid input''\<rparr>, st)
      else
        (case getUserByUsername st username of
           Some exists \<Rightarrow>
             (Respond \<lparr>status = 409, body = message_body ''User already exists''\<rparr>, st)
         | None \<Rightarrow>
             (let hashedPassword = passwordUtils_hash l e (str_of password);
                  (created, st') =
                     createUser e \<lparr>iu_username = username, iu_password = hashedPassword,
                                   iu_role = Some ''user''\<rparr> st;
                  token = generateToken cfg l e
                            \<lparr>claim_id = u_id created, claim_username = u_username created,
                             claim_role = Some (u_role created)\<rparr>
              in (Respond \<lparr>status = 201,
                           body = JObj [(''user'', user_json (u_id created) (u_username created)
                                                     (u_role created)),
                                        (''token'', JStr token),
                                        (''message'', JStr ''Registration successful'')]\<rparr>,
                  st'))))"

definition invalid_credentials :: response where
  "invalid_credentials = \<lparr>status = 401, body = message_body ''Invalid credentials''\<rparr>"

definition login_handler :: "config \<Rightarrow> lib \<Rightarrow> env \<Rightarrow> middleware" where
  "login_handler cfg l e req st =
     (if non_string (raw_username req) then (Throw TypeError, st) else
      let username = normalized_username req; password = body_password req in
      if username = [] \<or> falsy password then
        (Respond \<lparr>status = 400, body = message_body ''Username and password are required''\<rparr>, st)
      else
        (case getUserByUsername st username of
           None \<Rightarrow> (Respond invalid_credentials, st)
         | Some u \<Rightarrow>
             (case passwordUtils_verify l password (u_password u) of
                Inl err \<Rightarrow> (Throw err, st)
              | Inr isValidPassword \<Rightarrow>
                  if \<not> isValidPassword then (Respond invalid_credentials, st)
                  else
                    (let role = or_else (Some (u_role u)) ''user'';
                         token = generateToken cfg l e
                                   \<lparr>claim_id = u_id u, claim_username = u_username u,
                                    claim_role = Some role\<rparr>;
                         refreshToken = generateRefreshToken l e (u_id u)
                     in (Respond \<lparr>status = 200,
                                  body = JObj [(''user'', user_json (u_id u) (u_username u) role),
                                               (''token'', JStr token),
                                               (''refreshToken'', JStr refreshToken),
                                               (''message'', JStr ''Login successful'')]\<rparr>,
                         st)))))"

definition waitlist_handler :: "lib \<Rightarrow> env \<Rightarrow> middleware" where
  "waitlist_handler l e req st =
     (let name = body_name req; email = body_email req; interests = body_interests req in
      if \<not> insertWaitlistSchema_ok name email interests then
        (Respond \<lparr>status = 400, body = message_body ''Invalid input''\<rparr>, st)
      else
        (case getWaitlistEntryByEmail st (str_of email) of
           Some exists \<Rightarrow>
             (Respond \<lparr>status = 409, body = message_body ''Email already registered''\<rparr>, st)
         | None \<Rightarrow>
             (let verificationToken = generateVerificationToken e;
                  verificationExpires = createVerificationExpiry e;
                  hashedToken = hashVerificationToken l verificationToken;
                  entry = \<lparr>ed_name = str_of name, ed_email = str_of email,
                           ed_interests = (case interests of Str i \<Rightarrow> Some i | _ \<Rightarrow> None),
                           ed_emailVerified = None,
                           ed_emailVerificationToken = Some hashedToken,
                           ed_emailVerificationExpires = Some verificationExpires\<rparr>;
                  (created, st') = createWaitlistEntry e entry st
              in (Respond \<lparr>status = 201,
                           body = JObj [(''id'', JStr (w_id created)),
                                        (''name'', JStr (w_name created)),
                                        (''email'', JStr (w_email created)),
                                        (''message'',
                                         JStr (''Please check your email to verify your address ''
                                               @ ''and complete your waitlist registration.''))]\<rparr>,
                  st'))))"

text \<open>
  The two confirmation handlers read \<open>token\<close> and \<open>email\<close> from the parsed query string;
  \<open>email as string\<close> and \<open>token as string\<close> are casts of the type checker only. A parameter
  that is not a string (an array or an object) is no key of the waitlist map and equals no
  stored user name, so the lookup finds nothing; and \<open>createHash('sha256').update\<close> in
  \<open>hashVerificationToken\<close> throws a \<open>TypeError\<close> when it is handed one.
\<close>

definition verify_waitlist_handler :: "lib \<Rightarrow> env \<Rightarrow> middleware" where
  "verify_waitlist_handler l e req st =
     (if falsy (query_token req) \<or> falsy (query_email req) then
        (Respond \<lparr>status = 400, body = message_body ''Token and email are required''\<rparr>, st)
      else
        (let token = query_token req; email = query_email req in
         case (case email of Str m \<Rightarrow> getWaitlistEntryByEmail st m | _ \<Rightarrow> None) of
           None \<Rightarrow> (Respond \<lparr>status = 404, body = message_body ''Invalid verification link''\<rparr>, st)
         | Some entry \<Rightarrow>
             if \<not> truthy (w_emailVerificationToken entry) then
               (Respond \<lparr>status = 404, body = message_body ''Invalid verification link''\<rparr>, st)
             else
               (case (case token of
                        Str t \<Rightarrow> verifyTokenHash l t (the (w_emailVerificationToken entry))
                      | _ \<Rightarrow> Inl TypeError) of
                  Inl err \<Rightarrow> (Throw err, st)
                | Inr matches \<Rightarrow>
                    if \<not> matches then
                      (Respond \<lparr>status = 400,
                                body = message_body ''Invalid verification token''\<rparr>, st)
                    else if (case w_emailVerificationExpires entry of
                               None \<Rightarrow> False
                             | Some expires \<Rightarrow> isVerificationExpired e expires) then
                      (Respond \<lparr>status = 400,
                                body = message_body ''Verification link has expired''\<rparr>, st)
                    else
                      (Respond \<lparr>status = 200,
                                body = message_body (''Email verified successfully! ''
                                         @ ''You've been added to the waitlist.'')\<rparr>,
                       updateWaitlistVerification e (str_of email) True None None st))))"

definition verify_registration_handler :: "lib \<Rightarrow> env \<Rightarrow> middleware" where
  "verify_registration_handler l e req st =
     (if falsy (query_token req) \<or> falsy (query_email req) then
        (Respond \<lparr>status = 400, body = message_body ''Token and email are required''\<rparr>, st)
      else
        (let token = query_token req; email = query_email req in
         case (case email of Str m \<Rightarrow> getUserByUsername st m | _ \<Rightarrow> None) of
           None \<Rightarrow> (Respond \<lparr>status = 404, body = message_body ''Invalid verification link''\<rparr>, st)
         | Some u \<Rightarrow>
             if \<not> truthy (u_emailVerificationToken u) then
               (Respond \<lparr>status = 404, body = message_body ''Invalid verification link''\<rparr>, st)
             else
               (case (case token of
                        Str t \<Rightarrow> verifyTokenHash l t (the (u_emailVerificationToken u))
                      | _ \<Rightarrow> Inl TypeError) of
                  Inl err \<Rightarrow> (Throw err, st)
                | Inr matches \<Rightarrow>
                    if \<not> matches then
                      (Respond \<lparr>status = 400,
                                body = message_body ''Invalid verification token''\<rparr>, st)
                    else if (case u_emailVerificationExpires u of
                               None \<Rightarrow> False
                             | Some expires \<Rightarrow> isVerificationExpired e expires) then
                      (Respond \<lparr>status = 400,
                                body = message_body ''Verification link has expired''\<rparr>, st)
                    else
                      (Respond \<lparr>status = 200,
                                body = message_body (''Email verified successfully! ''
                                         @ ''Your account is now active.'')\<rparr>,
                       updateUserVerification e (str_of email) True None None st))))"

section \<open>Routes\<close>

text \<open>
  \<open>app.use('/api', logAuthenticatedRequest)\<close> and
  \<open>app.use('/api', rateLimitByUser(100, 15 * 60 * 1000))\<close> precede every route under
  \<open>/api\<close>; the route's own functions follow in the order of its \<open>app.post\<close> or \<open>app.get\<close>.
\<close>

definition api_middleware :: "env \<Rightarrow> middleware list" where
  "api_middleware e =
     [stateless logAuthenticatedRequest,
      on_userRequestCounts (rateLimitByUser 100 (15 * 60 * 1000) (now e))]"

definition register_route :: "config \<Rightarrow> lib \<Rightarrow> env \<Rightarrow> middleware" where
  "register_route cfg l e =
     run_chain (api_middleware e @
       [on_ipRequestCounts (strictRateLimitByIP 5 (60 * 60 * 1000) (now e)),
        stateless (requireApiKey cfg),
        stateless (validateOrigin cfg l),
        register_handler cfg l e])"

definition waitlist_route :: "config \<Rightarrow> lib \<Rightarrow> env \<Rightarrow> middleware" where
  "waitlist_route cfg l e =
     run_chain (api_middleware e @
       [on_ipRequestCounts (strictRateLimitByIP 10 (60 * 60 * 1000) (now e)),
        stateless (requireApiKey cfg),
        stateless (validateOrigin cfg l),
        waitlist_handler l e])"

definition login_route :: "config \<Rightarrow> lib \<Rightarrow> env \<Rightarrow> middleware" where
  "login_route cfg l e = run_chain (api_middleware e @ [login_handler cfg l e])"

definition verify_waitlist_route :: "lib \<Rightarrow> env \<Rightarrow> middleware" where
  "verify_waitlist_route l e = run_chain (api_middleware e @ [verify_waitlist_handler l e])"

definition verify_registration_route :: "lib \<Rightarrow> env \<Rightarrow> middleware" where
  "verify_registration_route l e =
     run_chain (api_middleware e @ [verify_registration_handler l e])"

section \<open>Runs and sample inputs\<close>

text \<open>The state when the modules have loaded: both rate-limit maps and both storage maps are empty.\<close>

definition initial_state :: server_state where
  "initial_state =
     \<lparr>userRequestCounts = Map.empty, ipRequestCounts = Map.empty,
      users = [], waitlistEntries = []\<rparr>"

text \<open>Successive requests of one client through \<open>strictRateLimitByIP\<close>, at the given clock readings.\<close>

fun ip_calls ::
  "int \<Rightarrow> int \<Rightarrow> request \<Rightarrow> int list \<Rightarrow> rate_map \<Rightarrow> outcome list \<times> rate_map" where
  "ip_calls maxRequests windowMs req [] m = ([], m)"
| "ip_calls maxRequests windowMs req (t # ts) m =
     (let r = strictRateLimitByIP maxRequests windowMs t req m;
          rs = ip_calls maxRequests windowMs req ts (snd r)
      in (fst r # fst rs, snd rs))"

text \<open>The routes of the model, and the server handling a list of requests one after the other.\<close>

datatype route = Register | Waitlist | Login | VerifyWaitlist | VerifyRegistration

fun serve :: "config \<Rightarrow> lib \<Rightarrow> route \<times> env \<times> request \<Rightarrow> server_state \<Rightarrow> outcome \<times> server_state" where
  "serve cfg l (Register, e, req) st = register_route cfg l e req st"
| "serve cfg l (Waitlist, e, req) st = waitlist_route cfg l e req st"
| "serve cfg l (Login, e, req) st = login_route cfg l e req st"
| "serve cfg l (VerifyWaitlist, e, req) st = verify_waitlist_route l e req st"
| "serve cfg l (VerifyRegistration, e, req) st = verify_registration_route l e req st"

fun serve_all :: "config \<Rightarrow> lib \<Rightarrow> (route \<times> env \<times> request) list \<Rightarrow> server_state \<Rightarrow> server_state" where
  "serve_all cfg l [] st = st"
| "serve_all cfg l (c # cs) st = serve_all cfg l cs (snd (serve cfg l c st))"

text \<open>The member of a JSON object under a key.\<close>

fun json_field :: "json \<Rightarrow> string \<Rightarrow> json option" where
  "json_field (JObj members) k = map_of members k"
| "json_field JNull k = None"
| "json_field (JStr s) k = None"
| "json_field (JNum n) k = None"

text \<open>
  Inputs for the closed examples: a request that carries nothing, the configuration of a
  development server, and stand-ins for the library functions (the theorems hold for every
  choice of them; the examples need some choice). The stand-in digest pads or cuts the ASCII
  characters of its input to 64 characters, the length of a SHA-256 digest in hex. The
  stand-in for \<open>bcrypt.compare\<close> rejects where \<open>bcryptjs\<close> does: on a password that is not a
  string (\<open>Illegal arguments\<close>), and on a stored record of 60 characters that does not begin
  with \<open>$2\<close> (\<open>Invalid salt version\<close>).
\<close>

definition blank_request :: request where
  "blank_request =
     \<lparr>ip = None, remoteAddress = None, user = None, x_api_key = None, origin = None,
      referer = None, body_username = Undefined, body_email = Undefined,
      body_password = Undefined, body_name = Undefined, body_interests = Undefined,
      query_token = Undefined, query_email = Undefined\<rparr>"

definition dev_config :: config where
  "dev_config =
     \<lparr>API_KEY = ''dev-api-key-123456789'',
      ALLOWED_ORIGINS = [''http://localhost:3000'', ''https://webfrontend-xxjt.onrender.com''],
      JWT_EXPIRES_IN = ''24h'',
      production = False\<rparr>"

definition stand_in_lib :: lib where
  "stand_in_lib =
     \<lparr>bcrypt_hash = (\<lambda>salt password. salt @ password),
      bcrypt_compare =
        (\<lambda>password hash.
           case password of
             Str p \<Rightarrow>
               if length hash = 60 \<and> take 2 hash \<noteq> ''$2''
               then Inl (LibError ''Invalid salt version'')
               else Inr (drop (length hash - length p) hash = p)
           | _ \<Rightarrow> Inl (LibError ''Illegal arguments'')),
      jwt_sign = (\<lambda>payload expiresIn t. ''signed''),
      sha256_hex =
        (\<lambda>token. take 64 (filter (\<lambda>c. of_char c < (128::nat)) token
                              @ replicate 64 (CHR ''0''))),
      url_origin = Some\<rparr>"

definition sample_env :: "int \<Rightarrow> env" where
  "sample_env t =
     \<lparr>now = t, fresh_uuid = ''uuid-1'', fresh_short_id = ''k3j9x2m1q'',
      fresh_salt = ''salt'', fresh_token = ''c0ffee''\<rparr>"

text \<open>A registration request of the client \<open>203.0.113.7\<close> that carries the API key of \<open>dev_config\<close>.\<close>

definition sample_register_request :: "string \<Rightarrow> string \<Rightarrow> request" where
  "sample_register_request u p =
     blank_request\<lparr>ip := Some ''203.0.113.7'', x_api_key := Some ''dev-api-key-123456789'',
                    body_username := Str u, body_password := Str p\<rparr>"


text \<open>
  A login request, a server that holds one registered user, and a server whose one user has
  a stored password of 60 characters that is no bcrypt record (\<open>POST /api/users\<close> of
  \<open>api-server.ts\<close> stores the password of its request as it came).
\<close>

definition sample_login_request :: "string \<Rightarrow> jsval \<Rightarrow> request" where
  "sample_login_request u p =
     blank_request\<lparr>ip := Some ''203.0.113.7'', body_username := Str u, body_password := p\<rparr>"

definition one_user_state :: server_state where
  "one_user_state =
     initial_state
       \<lparr>users := [(''uuid-1'',
                   \<lparr>u_id = ''uuid-1'', u_username = ''test@example.com'',
                    u_password = ''saltsecret123'', u_role = ''user'', u_emailVerified = None,
                    u_emailVerificationToken = None, u_emailVerificationExpires = None,
                    u_createdAt = 0, u_updatedAt = 0\<rparr>)]\<rparr>"

definition raw_password_state :: server_state where
  "raw_password_state =
     initial_state
       \<lparr>users := [(''uuid-2'',
                   \<lparr>u_id = ''uuid-2'', u_username = ''raw@example.com'',
                    u_password = replicate 60 (CHR ''x''), u_role = ''user'',
                    u_emailVerified = None, u_emailVerificationToken = None,
                    u_emailVerificationExpires = None, u_createdAt = 0, u_updatedAt = 0\<rparr>)]\<rparr>"

text \<open>
  A verification request, a server whose waitlist holds one entry with the given stored hash
  and expiry, and a server whose one user has them.
\<close>

definition sample_verify_request :: "string \<Rightarrow> string \<Rightarrow> request" where
  "sample_verify_request token email =
     blank_request\<lparr>ip := Some ''203.0.113.7'', query_token := Str token,
                    query_email := Str email\<rparr>"

definition pending_entry :: "string option \<Rightarrow> int option \<Rightarrow> WaitlistEntry" where
  "pending_entry h x =
     \<lparr>w_id = ''k3j9x2m1q'', w_email = ''ann@example.com'', w_name = ''Ann'',
      w_interests = None, w_createdAt = 0, w_emailVerified = None,
      w_emailVerificationToken = h, w_emailVerificationExpires = x\<rparr>"

definition pending_waitlist_state :: "string option \<Rightarrow> int option \<Rightarrow> server_state" where
  "pending_waitlist_state h x =
     initial_state\<lparr>waitlistEntries := [(''ann@example.com'', pending_entry h x)]\<rparr>"



text \<open>A waitlist request of Ann that carries the API key of \<open>dev_config\<close>.\<close>

definition sample_waitlist_request :: request where
  "sample_waitlist_request =
     blank_request\<lparr>ip := Some ''203.0.113.7'', x_api_key := Some ''dev-api-key-123456789'',
                    body_name := Str ''Ann'', body_email := Str ''ann@example.com''\<rparr>"

text \<open>No waitlist entry is verified or holds a verification hash or expiry.\<close>

definition no_pending :: "server_state \<Rightarrow> bool" where
  "no_pending st \<longleftrightarrow>
     (\<forall>x\<in>set (waitlistEntries st).
        w_emailVerified (snd x) = None \<and> w_emailVerificationToken (snd x) = None \<and>
        w_emailVerificationExpires (snd x) = None)"

text \<open>The user record that \<open>createUser\<close> builds when the registration handler calls it.\<close>

definition created_user :: "lib \<Rightarrow> env \<Rightarrow> request \<Rightarrow> User" where
  "created_user l e req =
     \<lparr>u_id = fresh_uuid e,
      u_username = normalized_username req,
      u_password = bcrypt_hash l (fresh_salt e) (str_of (body_password req)),
      u_role = ''user'',
      u_emailVerified = None,
      u_emailVerificationToken = None,
      u_emailVerificationExpires = None,
      u_createdAt = now e,
      u_updatedAt = now e\<rparr>"

section \<open>The fixed-window rate limiter\<close>

lemma ceil_div_1000_pos: "0 < ceil_div_1000 d \<longleftrightarrow> 0 < d"
  unfolding ceil_div_1000_def by (auto simp add: pos_imp_zdiv_pos_iff)

lemma ceil_div_1000_nonneg: "0 \<le> d \<Longrightarrow> 0 \<le> ceil_div_1000 d"
  unfolding ceil_div_1000_def by (simp add: pos_imp_zdiv_nonneg_iff)

lemma ceil_div_1000_bounds:
  "1000 * (ceil_div_1000 d - 1) < d \<and> d \<le> 1000 * ceil_div_1000 d"
proof -
  define q where "q = (d + 999) div 1000"
  define r where "r = (d + 999) mod 1000"
  have e: "d + 999 = 1000 * q + r"
    unfolding q_def r_def by simp
  have "0 \<le> r" "r < 1000"
    unfolding r_def by simp_all
  with e have "1000 * (q - 1) < d \<and> d \<le> 1000 * q"
    by auto
  then show ?thesis
    unfolding ceil_div_1000_def q_def .
qed

lemma strict_fresh:
  "m (clientIP req) = None \<Longrightarrow>
   strictRateLimitByIP mx win t req m =
     (Next, m(clientIP req \<mapsto> \<lparr>count = 1, resetTime = t + win\<rparr>))"
  by (simp add: strictRateLimitByIP_def)

lemma strict_expired:
  "m (clientIP req) = Some w \<Longrightarrow> resetTime w < t \<Longrightarrow>
   strictRateLimitByIP mx win t req m =
     (Next, m(clientIP req \<mapsto> \<lparr>count = 1, resetTime = t + win\<rparr>))"
  by (simp add: strictRateLimitByIP_def)

lemma strict_count:
  "m (clientIP req) = Some w \<Longrightarrow> t \<le> resetTime w \<Longrightarrow> count w < mx \<Longrightarrow>
   strictRateLimitByIP mx win t req m = (Next, m(clientIP req \<mapsto> w\<lparr>count := count w + 1\<rparr>))"
  by (simp add: strictRateLimitByIP_def)

lemma strict_denied:
  "m (clientIP req) = Some w \<Longrightarrow> t \<le> resetTime w \<Longrightarrow> mx \<le> count w \<Longrightarrow>
   strictRateLimitByIP mx win t req m =
     (Respond (ip_limit_response (ceil_div_1000 (resetTime w - t))), m)"
  by (simp add: strictRateLimitByIP_def)

lemma ip_calls_Cons:
  "strictRateLimitByIP mx win t req m = (out, m') \<Longrightarrow>
   ip_calls mx win req ts m' = (outs, m'') \<Longrightarrow>
   ip_calls mx win req (t # ts) m = (out # outs, m'')"
  by simp

lemma ip_calls_Nil: "ip_calls mx win req [] m = ([], m)"
  by simp

lemma ip_window_scenario:
  assumes "m (clientIP req) = None"
      and "t2 \<le> t1 + 60000" "t3 \<le> t1 + 60000" "t4 \<le> t1 + 60000" "t5 \<le> t1 + 60000"
      and "t6 < t1 + 60000" and "t1 + 60000 < t7"
  shows "ip_calls 5 60000 req [t1, t2, t3, t4, t5, t6, t7] m =
           ([Next, Next, Next, Next, Next,
             Respond (ip_limit_response (ceil_div_1000 (t1 + 60000 - t6))), Next],
            m(clientIP req \<mapsto> \<lparr>count = 1, resetTime = t7 + 60000\<rparr>))"
proof -
  let ?k = "clientIP req"
  let ?w = "\<lambda>c. \<lparr>count = c, resetTime = t1 + 60000\<rparr>"
  have s1: "strictRateLimitByIP 5 60000 t1 req m = (Next, m(?k \<mapsto> ?w 1))"
    using assms(1) by (simp add: strict_fresh)
  have s2: "strictRateLimitByIP 5 60000 t2 req (m(?k \<mapsto> ?w 1)) = (Next, m(?k \<mapsto> ?w 2))"
    using assms(2) by (simp add: strict_count [where w = "?w 1"])
  have s3: "strictRateLimitByIP 5 60000 t3 req (m(?k \<mapsto> ?w 2)) = (Next, m(?k \<mapsto> ?w 3))"
    using assms(3) by (simp add: strict_count [where w = "?w 2"])
  have s4: "strictRateLimitByIP 5 60000 t4 req (m(?k \<mapsto> ?w 3)) = (Next, m(?k \<mapsto> ?w 4))"
    using assms(4) by (simp add: strict_count [where w = "?w 3"])
  have s5: "strictRateLimitByIP 5 60000 t5 req (m(?k \<mapsto> ?w 4)) = (Next, m(?k \<mapsto> ?w 5))"
    using assms(5) by (simp add: strict_count [where w = "?w 4"])
  have s6: "strictRateLimitByIP 5 60000 t6 req (m(?k \<mapsto> ?w 5)) =
              (Respond (ip_limit_response (ceil_div_1000 (t1 + 60000 - t6))), m(?k \<mapsto> ?w 5))"
    using assms(6) by (simp add: strict_denied [where w = "?w 5"])
  have s7: "strictRateLimitByIP 5 60000 t7 req (m(?k \<mapsto> ?w 5)) =
              (Next, m(?k \<mapsto> \<lparr>count = 1, resetTime = t7 + 60000\<rparr>))"
    using assms(7) by (simp add: strict_expired [where w = "?w 5"])
  show ?thesis
    by (rule ip_calls_Cons [OF s1 ip_calls_Cons [OF s2 ip_calls_Cons [OF s3 ip_calls_Cons [OF s4
          ip_calls_Cons [OF s5 ip_calls_Cons [OF s6 ip_calls_Cons [OF s7 ip_calls_Nil]]]]]]])
qed

text \<open>
  C3 (as amended). For every key, \<open>strictRateLimitByIP\<close> on the first request of the key, or
  whenever \<open>now > resetTime\<close>, sets the count to 1 and \<open>resetTime = now + windowMs\<close> and
  lets the request pass; otherwise, while \<open>count < maxRequests\<close>, it increments the count and
  lets the request pass; otherwise it answers 429 and leaves the map as it was, with
  \<open>retryAfter = ceil((resetTime - now) / 1000)\<close> seconds, which is never negative and is
  positive exactly when \<open>now < resetTime\<close>. With \<open>maxRequests = 5\<close> and a window of 60000 ms,
  five requests of a new key no later than the reset time pass, a sixth before the reset time
  is denied with \<open>retryAfter > 0\<close>, and a request after the reset time passes with the count
  back at 1.
\<close>

theorem strictRateLimitByIP_fixed_window:
  "(m (clientIP req) = None \<or> (\<exists>w. m (clientIP req) = Some w \<and> resetTime w < t) \<longrightarrow>
      strictRateLimitByIP mx win t req m =
        (Next, m(clientIP req \<mapsto> \<lparr>count = 1, resetTime = t + win\<rparr>))) \<and>
   (\<forall>w. m (clientIP req) = Some w \<and> t \<le> resetTime w \<and> count w < mx \<longrightarrow>
      strictRateLimitByIP mx win t req m =
        (Next, m(clientIP req \<mapsto> w\<lparr>count := count w + 1\<rparr>))) \<and>
   (\<forall>w. m (clientIP req) = Some w \<and> t \<le> resetTime w \<and> mx \<le> count w \<longrightarrow>
      strictRateLimitByIP mx win t req m =
        (Respond (ip_limit_response (ceil_div_1000 (resetTime w - t))), m) \<and>
      0 \<le> ceil_div_1000 (resetTime w - t) \<and>
      (0 < ceil_div_1000 (resetTime w - t) \<longleftrightarrow> t < resetTime w) \<and>
      1000 * (ceil_div_1000 (resetTime w - t) - 1) < resetTime w - t \<and>
      resetTime w - t \<le> 1000 * ceil_div_1000 (resetTime w - t)) \<and>
   (\<forall>t1 t2 t3 t4 t5 t6 t7.
      m (clientIP req) = None \<and> t2 \<le> t1 + 60000 \<and> t3 \<le> t1 + 60000 \<and> t4 \<le> t1 + 60000 \<and>
      t5 \<le> t1 + 60000 \<and> t6 < t1 + 60000 \<and> t1 + 60000 < t7 \<longrightarrow>
      ip_calls 5 60000 req [t1, t2, t3, t4, t5, t6, t7] m =
        ([Next, Next, Next, Next, Next,
          Respond (ip_limit_response (ceil_div_1000 (t1 + 60000 - t6))), Next],
         m(clientIP req \<mapsto> \<lparr>count = 1, resetTime = t7 + 60000\<rparr>)) \<and>
      0 < ceil_div_1000 (t1 + 60000 - t6))"
proof (intro conjI allI impI)
  assume "m (clientIP req) = None \<or> (\<exists>w. m (clientIP req) = Some w \<and> resetTime w < t)"
  then show "strictRateLimitByIP mx win t req m =
      (Next, m(clientIP req \<mapsto> \<lparr>count = 1, resetTime = t + win\<rparr>))"
    by (auto simp add: strict_fresh strict_expired)
next
  fix w assume "m (clientIP req) = Some w \<and> t \<le> resetTime w \<and> count w < mx"
  then show "strictRateLimitByIP mx win t req m =
      (Next, m(clientIP req \<mapsto> w\<lparr>count := count w + 1\<rparr>))"
    by (simp add: strict_count)
next
  fix w assume a: "m (clientIP req) = Some w \<and> t \<le> resetTime w \<and> mx \<le> count w"
  then show "strictRateLimitByIP mx win t req m =
      (Respond (ip_limit_response (ceil_div_1000 (resetTime w - t))), m)"
    by (simp add: strict_denied)
  from a show "0 \<le> ceil_div_1000 (resetTime w - t)"
    by (simp add: ceil_div_1000_nonneg)
  show "0 < ceil_div_1000 (resetTime w - t) \<longleftrightarrow> t < resetTime w"
    by (simp add: ceil_div_1000_pos)
  show "1000 * (ceil_div_1000 (resetTime w - t) - 1) < resetTime w - t"
    using ceil_div_1000_bounds [of "resetTime w - t"] by simp
  show "resetTime w - t \<le> 1000 * ceil_div_1000 (resetTime w - t)"
    using ceil_div_1000_bounds [of "resetTime w - t"] by simp
next
  fix t1 t2 t3 t4 t5 t6 t7 :: int
  assume a: "m (clientIP req) = None \<and> t2 \<le> t1 + 60000 \<and> t3 \<le> t1 + 60000 \<and>
      t4 \<le> t1 + 60000 \<and> t5 \<le> t1 + 60000 \<and> t6 < t1 + 60000 \<and> t1 + 60000 < t7"
  then show "ip_calls 5 60000 req [t1, t2, t3, t4, t5, t6, t7] m =
        ([Next, Next, Next, Next, Next,
          Respond (ip_limit_response (ceil_div_1000 (t1 + 60000 - t6))), Next],
         m(clientIP req \<mapsto> \<lparr>count = 1, resetTime = t7 + 60000\<rparr>))"
    by (intro ip_window_scenario) simp_all
  from a show "0 < ceil_div_1000 (t1 + 60000 - t6)"
    by (simp add: ceil_div_1000_pos)
qed


lemma clientIP_sample [simp]: "clientIP (blank_request\<lparr>ip := Some ''203.0.113.7''\<rparr>) = ''203.0.113.7''"
  by (simp add: clientIP_def blank_request_def)

text \<open>The four parts at concrete clock readings, for the client \<open>203.0.113.7\<close>.\<close>

theorem strictRateLimitByIP_fixed_window_witness:
  "strictRateLimitByIP 5 60000 0 (blank_request\<lparr>ip := Some ''203.0.113.7''\<rparr>) Map.empty =
     (Next, [''203.0.113.7'' \<mapsto> \<lparr>count = 1, resetTime = 60000\<rparr>]) \<and>
   strictRateLimitByIP 5 60000 30000 (blank_request\<lparr>ip := Some ''203.0.113.7''\<rparr>)
       [''203.0.113.7'' \<mapsto> \<lparr>count = 3, resetTime = 60000\<rparr>] =
     (Next, [''203.0.113.7'' \<mapsto> \<lparr>count = 4, resetTime = 60000\<rparr>]) \<and>
   strictRateLimitByIP 5 60000 30500 (blank_request\<lparr>ip := Some ''203.0.113.7''\<rparr>)
       [''203.0.113.7'' \<mapsto> \<lparr>count = 5, resetTime = 60000\<rparr>] =
     (Respond (ip_limit_response 30), [''203.0.113.7'' \<mapsto> \<lparr>count = 5, resetTime = 60000\<rparr>]) \<and>
   ip_calls 5 60000 (blank_request\<lparr>ip := Some ''203.0.113.7''\<rparr>)
       [0, 10, 20, 30, 40, 50, 60001] Map.empty =
     ([Next, Next, Next, Next, Next, Respond (ip_limit_response 60), Next],
      [''203.0.113.7'' \<mapsto> \<lparr>count = 1, resetTime = 120001\<rparr>])"
proof -
  let ?req = "blank_request\<lparr>ip := Some ''203.0.113.7''\<rparr>"
  let ?k = "''203.0.113.7''"
  have c1: "ceil_div_1000 29500 = 30" and c2: "ceil_div_1000 59950 = 60"
    by (simp_all add: ceil_div_1000_def)
  have a: "strictRateLimitByIP 5 60000 0 ?req Map.empty =
      (Next, [?k \<mapsto> \<lparr>count = 1, resetTime = 60000\<rparr>])"
    using strictRateLimitByIP_fixed_window
      [of Map.empty ?req 0 5 60000, THEN conjunct1] by simp
  have b: "strictRateLimitByIP 5 60000 30000 ?req [?k \<mapsto> \<lparr>count = 3, resetTime = 60000\<rparr>] =
      (Next, [?k \<mapsto> \<lparr>count = 4, resetTime = 60000\<rparr>])"
    using strictRateLimitByIP_fixed_window
      [of "[?k \<mapsto> \<lparr>count = 3, resetTime = 60000\<rparr>]" ?req 30000 5 60000,
       THEN conjunct2, THEN conjunct1, THEN spec, of "\<lparr>count = 3, resetTime = 60000\<rparr>"]
    by simp
  have c: "strictRateLimitByIP 5 60000 30500 ?req [?k \<mapsto> \<lparr>count = 5, resetTime = 60000\<rparr>] =
      (Respond (ip_limit_response 30), [?k \<mapsto> \<lparr>count = 5, resetTime = 60000\<rparr>])"
    using strictRateLimitByIP_fixed_window
      [of "[?k \<mapsto> \<lparr>count = 5, resetTime = 60000\<rparr>]" ?req 30500 5 60000,
       THEN conjunct2, THEN conjunct2, THEN conjunct1, THEN spec,
       of "\<lparr>count = 5, resetTime = 60000\<rparr>"] c1
    by simp
  have d: "ip_calls 5 60000 ?req [0, 10, 20, 30, 40, 50, 60001] Map.empty =
      ([Next, Next, Next, Next, Next, Respond (ip_limit_response 60), Next],
       [?k \<mapsto> \<lparr>count = 1, resetTime = 120001\<rparr>])"
    using strictRateLimitByIP_fixed_window
      [of Map.empty ?req 0 5 60000, THEN conjunct2, THEN conjunct2, THEN conjunct2,
       rule_format, of 10 0 20 30 40 50 60001] c2
    by (simp del: ip_calls.simps)
  from a b c d show ?thesis
    by (simp only: simp_thms)
qed

text \<open>
  C3 as stated lets the window end at \<open>now \<ge> windowResetAt\<close> and promises a positive
  \<open>retryAfterSeconds\<close>. The code compares with \<open>now > resetTime\<close>: a sixth request exactly
  at the reset time is denied, with \<open>retryAfter = 0\<close>, and the count stays at 5.
\<close>

theorem strictRateLimitByIP_boundary_counterexample:
  "ip_calls 5 60000 (blank_request\<lparr>ip := Some ''203.0.113.7''\<rparr>)
       [0, 1, 2, 3, 4, 60000] Map.empty =
     ([Next, Next, Next, Next, Next, Respond (ip_limit_response 0)],
      [''203.0.113.7'' \<mapsto> \<lparr>count = 5, resetTime = 60000\<rparr>]) \<and>
   json_field (body (ip_limit_response 0)) ''retryAfter'' = Some (JNum 0)"
proof -
  let ?req = "blank_request\<lparr>ip := Some ''203.0.113.7''\<rparr>"
  let ?k = "''203.0.113.7''"
  let ?w = "\<lambda>c. \<lparr>count = c, resetTime = 60000\<rparr>"
  have s1: "strictRateLimitByIP 5 60000 0 ?req Map.empty = (Next, [?k \<mapsto> ?w 1])"
    by (simp add: strict_fresh)
  have s2: "strictRateLimitByIP 5 60000 1 ?req [?k \<mapsto> ?w 1] = (Next, [?k \<mapsto> ?w 2])"
    by (simp add: strict_count [where w = "?w 1"])
  have s3: "strictRateLimitByIP 5 60000 2 ?req [?k \<mapsto> ?w 2] = (Next, [?k \<mapsto> ?w 3])"
    by (simp add: strict_count [where w = "?w 2"])
  have s4: "strictRateLimitByIP 5 60000 3 ?req [?k \<mapsto> ?w 3] = (Next, [?k \<mapsto> ?w 4])"
    by (simp add: strict_count [where w = "?w 3"])
  have s5: "strictRateLimitByIP 5 60000 4 ?req [?k \<mapsto> ?w 4] = (Next, [?k \<mapsto> ?w 5])"
    by (simp add: strict_count [where w = "?w 4"])
  have s6: "strictRateLimitByIP 5 60000 60000 ?req [?k \<mapsto> ?w 5] =
      (Respond (ip_limit_response 0), [?k \<mapsto> ?w 5])"
    by (simp add: strict_denied [where w = "?w 5"] ceil_div_1000_def)
  have "ip_calls 5 60000 ?req [0, 1, 2, 3, 4, 60000] Map.empty =
     ([Next, Next, Next, Next, Next, Respond (ip_limit_response 0)], [?k \<mapsto> ?w 5])"
    by (rule ip_calls_Cons [OF s1 ip_calls_Cons [OF s2 ip_calls_Cons [OF s3 ip_calls_Cons [OF s4
          ip_calls_Cons [OF s5 ip_calls_Cons [OF s6 ip_calls_Nil]]]]]])
  then show ?thesis
    by (simp add: ip_limit_response_def del: ip_calls.simps)
qed


section \<open>The order of the gateway stages\<close>

lemma requireApiKey_status:
  "requireApiKey cfg req = Respond r \<Longrightarrow> status r = 401 \<or> status r = 403"
  by (auto simp add: requireApiKey_def split: if_splits)

lemma strict_outcome:
  "strictRateLimitByIP mx win t req m = (out, m') \<Longrightarrow> 0 \<le> win \<Longrightarrow>
   (out = Next \<and> m' \<noteq> m \<and>
      (\<exists>w. m' (clientIP req) = Some w \<and>
           (count w = 1 \<and> resetTime w = t + win \<or>
            (\<exists>w0. m (clientIP req) = Some w0 \<and> w = w0\<lparr>count := count w0 + 1\<rparr>)))) \<or>
   (\<exists>w0. m (clientIP req) = Some w0 \<and> mx \<le> count w0 \<and>
      out = Respond (ip_limit_response (ceil_div_1000 (resetTime w0 - t))) \<and> m' = m)"
proof (cases "m (clientIP req)")
  case None
  assume "strictRateLimitByIP mx win t req m = (out, m')" and "0 \<le> win"
  with None have "out = Next" and m': "m' = m(clientIP req \<mapsto> \<lparr>count = 1, resetTime = t + win\<rparr>)"
    by (simp_all add: strict_fresh)
  from m' None have "m' \<noteq> m"
    by (metis fun_upd_same option.distinct(1))
  with \<open>out = Next\<close> m' show ?thesis by simp
next
  case (Some w0)
  assume r: "strictRateLimitByIP mx win t req m = (out, m')" and "0 \<le> win"
  consider "resetTime w0 < t" | "t \<le> resetTime w0" "count w0 < mx" | "t \<le> resetTime w0" "mx \<le> count w0"
    by linarith
  then show ?thesis
  proof cases
    case 1
    with Some r have "out = Next"
      and m': "m' = m(clientIP req \<mapsto> \<lparr>count = 1, resetTime = t + win\<rparr>)"
      by (simp_all add: strict_expired)
    have "m' (clientIP req) \<noteq> m (clientIP req)"
      using 1 Some m' \<open>0 \<le> win\<close> by auto
    then have "m' \<noteq> m" by metis
    with \<open>out = Next\<close> m' show ?thesis by simp
  next
    case 2
    with Some r have "out = Next" and m': "m' = m(clientIP req \<mapsto> w0\<lparr>count := count w0 + 1\<rparr>)"
      by (simp_all add: strict_count)
    have "m' (clientIP req) \<noteq> m (clientIP req)"
      using Some m' by (auto dest: arg_cong [where f = count])
    then have "m' \<noteq> m" by metis
    with \<open>out = Next\<close> m' Some show ?thesis by simp
  next
    case 3
    with Some r show ?thesis
      by (simp add: strict_denied)
  qed
qed


lemma ip_limit_status: "status (ip_limit_response n) = 429"
  by (simp add: ip_limit_response_def)

lemma user_limit_status: "status (user_limit_response n) = 429"
  by (simp add: user_limit_response_def)

lemma run_chain_Next:
  "mw req st = (Next, st') \<Longrightarrow> run_chain (mw # ms) req st = run_chain ms req st'"
  by simp

lemma run_chain_Respond:
  "mw req st = (Respond r, st') \<Longrightarrow> run_chain (mw # ms) req st = (Respond r, st')"
  by simp

lemma run_chain_Throw:
  "mw req st = (Throw x, st') \<Longrightarrow> run_chain (mw # ms) req st = (Throw x, st')"
  by simp

lemma api_prefix_passes:
  assumes "rateLimitByUser 100 (15 * 60 * 1000) (now e) req (userRequestCounts st) = (Next, um)"
  shows "run_chain (api_middleware e @ ms) req st = run_chain ms req (st\<lparr>userRequestCounts := um\<rparr>)"
  using assms
  by (simp add: api_middleware_def stateless_def logAuthenticatedRequest_def
      on_userRequestCounts_def)

lemma api_prefix_denies:
  assumes "rateLimitByUser 100 (15 * 60 * 1000) (now e) req (userRequestCounts st) = (Respond r, um)"
  shows "run_chain (api_middleware e @ ms) req st = (Respond r, st\<lparr>userRequestCounts := um\<rparr>)"
  using assms
  by (simp add: api_middleware_def stateless_def logAuthenticatedRequest_def
      on_userRequestCounts_def)

lemma public_stages_bad_key:
  assumes key: "requireApiKey cfg req = Respond r"
  shows "(\<forall>im. strictRateLimitByIP mx win t req (ipRequestCounts st) = (Next, im) \<longrightarrow>
            run_chain [on_ipRequestCounts (strictRateLimitByIP mx win t),
                       stateless (requireApiKey cfg), stateless vo, h] req st =
              (Respond r, st\<lparr>ipRequestCounts := im\<rparr>)) \<and>
         (\<forall>r' im. strictRateLimitByIP mx win t req (ipRequestCounts st) = (Respond r', im) \<longrightarrow>
            run_chain [on_ipRequestCounts (strictRateLimitByIP mx win t),
                       stateless (requireApiKey cfg), stateless vo, h] req st =
              (Respond r', st\<lparr>ipRequestCounts := im\<rparr>))"
  using key by (simp add: on_ipRequestCounts_def stateless_def)


lemma bad_key_route:
  assumes key: "requireApiKey cfg req = Respond r"
      and usr: "rateLimitByUser 100 (15 * 60 * 1000) (now e) req (userRequestCounts st) = (Next, um)"
      and win: "0 \<le> win"
      and route: "route = run_chain (api_middleware e @
                    [on_ipRequestCounts (strictRateLimitByIP mx win (now e)),
                     stateless (requireApiKey cfg), stateless vo, h])"
  shows "(\<forall>im. strictRateLimitByIP mx win (now e) req (ipRequestCounts st) = (Next, im) \<longrightarrow>
            route req st = (Respond r, st\<lparr>userRequestCounts := um, ipRequestCounts := im\<rparr>) \<and>
            im \<noteq> ipRequestCounts st \<and>
            (\<exists>w. im (clientIP req) = Some w \<and>
               (count w = 1 \<or>
                (\<exists>w0. ipRequestCounts st (clientIP req) = Some w0 \<and> count w = count w0 + 1)))) \<and>
         (\<forall>r' im. strictRateLimitByIP mx win (now e) req (ipRequestCounts st) = (Respond r', im) \<longrightarrow>
            route req st = (Respond r', st\<lparr>userRequestCounts := um\<rparr>) \<and> status r' = 429)"
proof (intro conjI allI impI)
  fix im
  assume ok: "strictRateLimitByIP mx win (now e) req (ipRequestCounts st) = (Next, im)"
  have "route req st =
      run_chain [on_ipRequestCounts (strictRateLimitByIP mx win (now e)),
                 stateless (requireApiKey cfg), stateless vo, h] req (st\<lparr>userRequestCounts := um\<rparr>)"
    unfolding route by (rule api_prefix_passes [OF usr])
  also have "\<dots> = (Respond r, st\<lparr>userRequestCounts := um, ipRequestCounts := im\<rparr>)"
    using public_stages_bad_key [OF key, of mx win "now e" "st\<lparr>userRequestCounts := um\<rparr>" vo h] ok
    by simp
  finally show "route req st = (Respond r, st\<lparr>userRequestCounts := um, ipRequestCounts := im\<rparr>)" .
  from strict_outcome [OF ok win]
  show "im \<noteq> ipRequestCounts st" by auto
  from strict_outcome [OF ok win]
  show "\<exists>w. im (clientIP req) = Some w \<and>
          (count w = 1 \<or>
           (\<exists>w0. ipRequestCounts st (clientIP req) = Some w0 \<and> count w = count w0 + 1))"
    by auto
next
  fix r' im
  assume no: "strictRateLimitByIP mx win (now e) req (ipRequestCounts st) = (Respond r', im)"
  from strict_outcome [OF no win] have im: "im = ipRequestCounts st" and r': "status r' = 429"
    by (auto simp add: ip_limit_status)
  have "route req st =
      run_chain [on_ipRequestCounts (strictRateLimitByIP mx win (now e)),
                 stateless (requireApiKey cfg), stateless vo, h] req (st\<lparr>userRequestCounts := um\<rparr>)"
    unfolding route by (rule api_prefix_passes [OF usr])
  also have "\<dots> = (Respond r', st\<lparr>userRequestCounts := um\<rparr>)"
    using public_stages_bad_key [OF key, of mx win "now e" "st\<lparr>userRequestCounts := um\<rparr>" vo h] no im
    by simp
  finally show "route req st = (Respond r', st\<lparr>userRequestCounts := um\<rparr>)" .
  show "status r' = 429" by (rule r')
qed

text \<open>
  C1 (as amended). On the registration and waitlist routes the IP rate limit runs before the
  API key check. A request that the API key check rejects (absent or wrong \<open>x-api-key\<close>)
  and that the general limiter let through has first passed \<open>strictRateLimitByIP\<close>, so the
  counter of its client is changed: it is 1 (new window) or one more than before. When
  instead the IP limiter denies the request, the answer is its 429, the IP counters are
  untouched and the API key is never checked.
\<close>

theorem api_key_rejection_consumes_ip_quota:
  assumes "requireApiKey cfg req = Respond r"
      and "rateLimitByUser 100 (15 * 60 * 1000) (now e) req (userRequestCounts st) = (Next, um)"
  shows
    "(\<forall>im. strictRateLimitByIP 5 (60 * 60 * 1000) (now e) req (ipRequestCounts st) = (Next, im) \<longrightarrow>
        register_route cfg l e req st =
          (Respond r, st\<lparr>userRequestCounts := um, ipRequestCounts := im\<rparr>) \<and>
        im \<noteq> ipRequestCounts st \<and>
        (\<exists>w. im (clientIP req) = Some w \<and>
           (count w = 1 \<or>
            (\<exists>w0. ipRequestCounts st (clientIP req) = Some w0 \<and> count w = count w0 + 1)))) \<and>
     (\<forall>r' im. strictRateLimitByIP 5 (60 * 60 * 1000) (now e) req (ipRequestCounts st) = (Respond r', im) \<longrightarrow>
        register_route cfg l e req st = (Respond r', st\<lparr>userRequestCounts := um\<rparr>) \<and>
        status r' = 429) \<and>
     (\<forall>im. strictRateLimitByIP 10 (60 * 60 * 1000) (now e) req (ipRequestCounts st) = (Next, im) \<longrightarrow>
        waitlist_route cfg l e req st =
          (Respond r, st\<lparr>userRequestCounts := um, ipRequestCounts := im\<rparr>) \<and>
        im \<noteq> ipRequestCounts st \<and>
        (\<exists>w. im (clientIP req) = Some w \<and>
           (count w = 1 \<or>
            (\<exists>w0. ipRequestCounts st (clientIP req) = Some w0 \<and> count w = count w0 + 1)))) \<and>
     (\<forall>r' im. strictRateLimitByIP 10 (60 * 60 * 1000) (now e) req (ipRequestCounts st) = (Respond r', im) \<longrightarrow>
        waitlist_route cfg l e req st = (Respond r', st\<lparr>userRequestCounts := um\<rparr>) \<and>
        status r' = 429)"
proof -
  have w: "(0::int) \<le> 60 * 60 * 1000" by simp
  note reg = bad_key_route [OF assms w, of "register_route cfg l e" 5 "validateOrigin cfg l"
      "register_handler cfg l e", unfolded register_route_def, OF refl, folded register_route_def]
  note wl = bad_key_route [OF assms w, of "waitlist_route cfg l e" 10 "validateOrigin cfg l"
      "waitlist_handler l e", unfolded waitlist_route_def, OF refl, folded waitlist_route_def]
  show ?thesis
    by (rule conjI [OF reg [THEN conjunct1] conjI [OF reg [THEN conjunct2] wl]])
qed


lemma sample_no_key:
  "requireApiKey dev_config (blank_request\<lparr>ip := Some ''203.0.113.7''\<rparr>) =
     Respond \<lparr>status = 401,
              body = error_body ''API key required''
                       ''Please provide a valid API key in the x-api-key header''\<rparr>"
  by (simp add: requireApiKey_def blank_request_def)

lemma sample_user_limit:
  "rateLimitByUser 100 (15 * 60 * 1000) (now (sample_env 0))
       (blank_request\<lparr>ip := Some ''203.0.113.7''\<rparr>) (userRequestCounts initial_state) =
     (Next, [''203.0.113.7'' \<mapsto> \<lparr>count = 1, resetTime = 900000\<rparr>])"
  by (simp add: rateLimitByUser_def blank_request_def initial_state_def sample_env_def)

lemma sample_ip_limit:
  "strictRateLimitByIP mx (60 * 60 * 1000) (now (sample_env 0))
       (blank_request\<lparr>ip := Some ''203.0.113.7''\<rparr>) (ipRequestCounts initial_state) =
     (Next, [''203.0.113.7'' \<mapsto> \<lparr>count = 1, resetTime = 3600000\<rparr>])"
  by (simp add: strictRateLimitByIP_def clientIP_def blank_request_def initial_state_def
      sample_env_def)

text \<open>A first request without an API key, on both routes.\<close>

theorem api_key_rejection_consumes_ip_quota_witness:
  "register_route dev_config stand_in_lib (sample_env 0)
       (blank_request\<lparr>ip := Some ''203.0.113.7''\<rparr>) initial_state =
     (Respond \<lparr>status = 401,
               body = error_body ''API key required''
                        ''Please provide a valid API key in the x-api-key header''\<rparr>,
      initial_state
        \<lparr>userRequestCounts := [''203.0.113.7'' \<mapsto> \<lparr>count = 1, resetTime = 900000\<rparr>],
         ipRequestCounts := [''203.0.113.7'' \<mapsto> \<lparr>count = 1, resetTime = 3600000\<rparr>]\<rparr>) \<and>
   waitlist_route dev_config stand_in_lib (sample_env 0)
       (blank_request\<lparr>ip := Some ''203.0.113.7''\<rparr>) initial_state =
     (Respond \<lparr>status = 401,
               body = error_body ''API key required''
                        ''Please provide a valid API key in the x-api-key header''\<rparr>,
      initial_state
        \<lparr>userRequestCounts := [''203.0.113.7'' \<mapsto> \<lparr>count = 1, resetTime = 900000\<rparr>],
         ipRequestCounts := [''203.0.113.7'' \<mapsto> \<lparr>count = 1, resetTime = 3600000\<rparr>]\<rparr>)"
proof -
  note t = api_key_rejection_consumes_ip_quota [OF sample_no_key sample_user_limit,
      of stand_in_lib]
  from t [THEN conjunct1, rule_format, OF sample_ip_limit]
  have a: "register_route dev_config stand_in_lib (sample_env 0)
       (blank_request\<lparr>ip := Some ''203.0.113.7''\<rparr>) initial_state =
     (Respond \<lparr>status = 401,
               body = error_body ''API key required''
                        ''Please provide a valid API key in the x-api-key header''\<rparr>,
      initial_state
        \<lparr>userRequestCounts := [''203.0.113.7'' \<mapsto> \<lparr>count = 1, resetTime = 900000\<rparr>],
         ipRequestCounts := [''203.0.113.7'' \<mapsto> \<lparr>count = 1, resetTime = 3600000\<rparr>]\<rparr>)"
    by (rule conjunct1)
  from t [THEN conjunct2, THEN conjunct2, THEN conjunct1, rule_format, OF sample_ip_limit]
  have b: "waitlist_route dev_config stand_in_lib (sample_env 0)
       (blank_request\<lparr>ip := Some ''203.0.113.7''\<rparr>) initial_state =
     (Respond \<lparr>status = 401,
               body = error_body ''API key required''
                        ''Please provide a valid API key in the x-api-key header''\<rparr>,
      initial_state
        \<lparr>userRequestCounts := [''203.0.113.7'' \<mapsto> \<lparr>count = 1, resetTime = 900000\<rparr>],
         ipRequestCounts := [''203.0.113.7'' \<mapsto> \<lparr>count = 1, resetTime = 3600000\<rparr>]\<rparr>)"
    by (rule conjunct1)
  from a b show ?thesis by (rule conjI)
qed

text \<open>
  C1 as stated has the API key check first and the counter untouched by a rejected request. A
  first registration request without a key is answered 401, and the client's counter goes
  from none to 1.
\<close>

theorem api_key_rejection_counterexample:
  "fst (register_route dev_config stand_in_lib (sample_env 0)
          (blank_request\<lparr>ip := Some ''203.0.113.7''\<rparr>) initial_state) =
     Respond \<lparr>status = 401,
              body = error_body ''API key required''
                       ''Please provide a valid API key in the x-api-key header''\<rparr> \<and>
   ipRequestCounts initial_state ''203.0.113.7'' = None \<and>
   ipRequestCounts
     (snd (register_route dev_config stand_in_lib (sample_env 0)
             (blank_request\<lparr>ip := Some ''203.0.113.7''\<rparr>) initial_state)) ''203.0.113.7'' =
     Some \<lparr>count = 1, resetTime = 3600000\<rparr>"
proof -
  let ?req = "blank_request\<lparr>ip := Some ''203.0.113.7''\<rparr>"
  have "register_route dev_config stand_in_lib (sample_env 0) ?req initial_state =
      run_chain [on_ipRequestCounts (strictRateLimitByIP 5 (60 * 60 * 1000) (now (sample_env 0))),
                 stateless (requireApiKey dev_config),
                 stateless (validateOrigin dev_config stand_in_lib),
                 register_handler dev_config stand_in_lib (sample_env 0)] ?req
        (initial_state\<lparr>userRequestCounts :=
           [''203.0.113.7'' \<mapsto> \<lparr>count = 1, resetTime = 900000\<rparr>]\<rparr>)"
    unfolding register_route_def by (rule api_prefix_passes [OF sample_user_limit])
  also have "\<dots> =
      (Respond \<lparr>status = 401,
                body = error_body ''API key required''
                         ''Please provide a valid API key in the x-api-key header''\<rparr>,
       initial_state
         \<lparr>userRequestCounts := [''203.0.113.7'' \<mapsto> \<lparr>count = 1, resetTime = 900000\<rparr>],
          ipRequestCounts := [''203.0.113.7'' \<mapsto> \<lparr>count = 1, resetTime = 3600000\<rparr>]\<rparr>)"
    using public_stages_bad_key [OF sample_no_key, of 5 "60 * 60 * 1000" "now (sample_env 0)"
        "initial_state\<lparr>userRequestCounts :=
           [''203.0.113.7'' \<mapsto> \<lparr>count = 1, resetTime = 900000\<rparr>]\<rparr>", THEN conjunct1, rule_format,
        of "[''203.0.113.7'' \<mapsto> \<lparr>count = 1, resetTime = 3600000\<rparr>]"]
      sample_ip_limit [of 5]
    by simp
  finally show ?thesis
    by (simp add: initial_state_def)
qed


section \<open>The e-mail pattern\<close>

lemma email_char_dot: "email_char (CHR ''.'')"
  by (simp add: email_char_def is_space_def)

lemma email_char_at: "\<not> email_char (CHR ''@'')"
  by (simp add: email_char_def)

lemma emailRegex_test_intro:
  assumes "local \<noteq> []" and "domain \<noteq> []" and "tld \<noteq> []"
      and "list_all email_char (local @ domain @ tld)"
  shows "emailRegex_test (local @ ''@'' @ domain @ ''.'' @ tld)"
proof -
  let ?rest = "domain @ ''.'' @ tld"
  from assms(4) have l: "\<forall>c\<in>set local. email_char c" and r: "list_all email_char ?rest"
    by (auto simp add: list_all_iff email_char_dot)
  from l have tw: "takeWhile email_char (local @ ''@'' @ ?rest) = local"
    by (simp add: takeWhile_append2 email_char_at)
  from l have dw: "dropWhile email_char (local @ ''@'' @ ?rest) = CHR ''@'' # ?rest"
    by (simp add: dropWhile_append2 email_char_at)
  obtain d ds where d: "domain = d # ds" using assms(2) by (cases domain) auto
  obtain ts t where t: "tld = ts @ [t]" using assms(3) by (cases tld rule: rev_cases) auto
  have "tl ?rest = (ds @ CHR ''.'' # ts) @ [t]" by (simp add: d t)
  then have "butlast (tl ?rest) = ds @ CHR ''.'' # ts" by (simp only: butlast_snoc)
  then have dot: "CHR ''.'' \<in> set (butlast (tl ?rest))" by simp
  show ?thesis
    unfolding emailRegex_test_def dw tw
    using assms(1) r dot by simp
qed

lemma emailRegex_test_elim:
  assumes "emailRegex_test v"
  shows "\<exists>local domain tld. v = local @ ''@'' @ domain @ ''.'' @ tld \<and> local \<noteq> [] \<and>
           domain \<noteq> [] \<and> tld \<noteq> [] \<and> list_all email_char (local @ domain @ tld)"
proof -
  from assms obtain c rest where dw: "dropWhile email_char v = c # rest"
    by (cases "dropWhile email_char v") (auto simp add: emailRegex_test_def)
  with assms have l: "takeWhile email_char v \<noteq> []" and c: "c = CHR ''@''"
    and r: "list_all email_char rest" and dot: "CHR ''.'' \<in> set (butlast (tl rest))"
    by (simp_all add: emailRegex_test_def)
  have v: "v = takeWhile email_char v @ CHR ''@'' # rest"
    using takeWhile_dropWhile_id [of email_char v] dw c by simp
  from dot have ne: "tl rest \<noteq> []" by auto
  then obtain d ds where rest: "rest = d # ds" and ds: "ds \<noteq> []"
    by (cases rest) auto
  from ds obtain ms t where ms: "ds = ms @ [t]" by (cases ds rule: rev_cases) auto
  with dot rest have "CHR ''.'' \<in> set ms" by simp
  then obtain p q where pq: "ms = p @ CHR ''.'' # q" by (auto dest: split_list)
  have shape: "rest = (d # p) @ ''.'' @ (q @ [t])"
    by (simp add: rest ms pq)
  have all: "list_all email_char (takeWhile email_char v @ (d # p) @ (q @ [t]))"
    using r by (auto simp add: list_all_iff rest ms pq dest: set_takeWhileD)
  have "v = takeWhile email_char v @ ''@'' @ (d # p) @ ''.'' @ (q @ [t])"
    using v shape by simp
  with l all show ?thesis by blast
qed

text \<open>
  \<open>emailRegex_test\<close> accepts exactly the strings \<open>local@domain.tld\<close> whose three parts
  are non-empty and free of white space and \<open>@\<close>: the language of the pattern in
  \<open>insertUserSchema\<close> and \<open>insertWaitlistSchema\<close>.
\<close>

theorem emailRegex_test_shape:
  "emailRegex_test v \<longleftrightarrow>
     (\<exists>local domain tld. v = local @ ''@'' @ domain @ ''.'' @ tld \<and> local \<noteq> [] \<and>
        domain \<noteq> [] \<and> tld \<noteq> [] \<and> list_all email_char (local @ domain @ tld))"
proof
  assume "emailRegex_test v"
  then show "\<exists>local domain tld. v = local @ ''@'' @ domain @ ''.'' @ tld \<and> local \<noteq> [] \<and>
        domain \<noteq> [] \<and> tld \<noteq> [] \<and> list_all email_char (local @ domain @ tld)"
    by (rule emailRegex_test_elim)
next
  assume "\<exists>local domain tld. v = local @ ''@'' @ domain @ ''.'' @ tld \<and> local \<noteq> [] \<and>
        domain \<noteq> [] \<and> tld \<noteq> [] \<and> list_all email_char (local @ domain @ tld)"
  then obtain local domain tld where v: "v = local @ ''@'' @ domain @ ''.'' @ tld"
    and parts: "local \<noteq> []" "domain \<noteq> []" "tld \<noteq> []"
      "list_all email_char (local @ domain @ tld)"
    by blast
  show "emailRegex_test v"
    unfolding v using parts by (rule emailRegex_test_intro)
qed


section \<open>Registration\<close>

lemma emailRegex_test_nonempty: "emailRegex_test v \<Longrightarrow> v \<noteq> []"
  by (auto simp add: emailRegex_test_def)

lemma insertUserSchema_ok_iff:
  "insertUserSchema_ok username password \<longleftrightarrow>
     emailRegex_test username \<and> (\<exists>p. password = Str p \<and> 6 \<le> length p)"
  by (cases password) (auto simp add: insertUserSchema_ok_def dest: emailRegex_test_nonempty
      simp add: Suc_le_eq)

lemma register_handler_non_string:
  "non_string (raw_username req) \<Longrightarrow> register_handler cfg l e req st = (Throw TypeError, st)"
  by (simp add: register_handler_def)

lemma register_handler_invalid:
  "\<not> non_string (raw_username req) \<Longrightarrow>
   \<not> insertUserSchema_ok (normalized_username req) (body_password req) \<Longrightarrow>
   register_handler cfg l e req st =
     (Respond \<lparr>status = 400, body = message_body ''Invalid input''\<rparr>, st)"
  by (simp add: register_handler_def)

lemma register_handler_duplicate:
  "\<not> non_string (raw_username req) \<Longrightarrow>
   insertUserSchema_ok (normalized_username req) (body_password req) \<Longrightarrow>
   getUserByUsername st (normalized_username req) = Some u \<Longrightarrow>
   register_handler cfg l e req st =
     (Respond \<lparr>status = 409, body = message_body ''User already exists''\<rparr>, st)"
  by (simp add: register_handler_def)

lemma register_handler_created:
  "\<not> non_string (raw_username req) \<Longrightarrow>
   insertUserSchema_ok (normalized_username req) (body_password req) \<Longrightarrow>
   getUserByUsername st (normalized_username req) = None \<Longrightarrow>
   register_handler cfg l e req st =
     (Respond \<lparr>status = 201,
               body = JObj [(''user'', user_json (fresh_uuid e) (normalized_username req) ''user''),
                            (''token'',
                             JStr (generateToken cfg l e
                                     \<lparr>claim_id = fresh_uuid e,
                                      claim_username = normalized_username req,
                                      claim_role = Some ''user''\<rparr>)),
                            (''message'', JStr ''Registration successful'')]\<rparr>,
      st\<lparr>users := AList.update (fresh_uuid e) (created_user l e req) (users st)\<rparr>)"
  by (simp add: register_handler_def createUser_def passwordUtils_hash_def created_user_def Let_def)


lemma run_chain_append_handler:
  "run_chain (ms @ [h]) req st = (out, st') \<Longrightarrow>
   (\<exists>s. run_chain ms req st = (Next, s) \<and> h req s = (out, st')) \<or>
   (out \<noteq> Next \<and> run_chain ms req st = (out, st'))"
proof (induction ms arbitrary: st)
  case Nil
  then show ?case
    by (cases "h req st"; cases "fst (h req st)") (auto split: outcome.splits)
next
  case (Cons m ms)
  obtain o1 s1 where m: "m req st = (o1, s1)" by (cases "m req st")
  show ?case
  proof (cases o1)
    case Next
    with m Cons.prems have "run_chain (ms @ [h]) req s1 = (out, st')" by simp
    from Cons.IH [OF this] m Next show ?thesis by simp
  next
    case (Respond r)
    with m Cons.prems show ?thesis by auto
  next
    case (Throw x)
    with m Cons.prems show ?thesis by auto
  qed
qed

lemma run_chain_responder:
  "run_chain ms req st = (Respond r, st') \<Longrightarrow> \<exists>m\<in>set ms. \<exists>s. m req s = (Respond r, st')"
proof (induction ms arbitrary: st)
  case Nil
  then show ?case by simp
next
  case (Cons m ms)
  obtain o1 s1 where m: "m req st = (o1, s1)" by (cases "m req st")
  show ?case
  proof (cases o1)
    case Next
    with m Cons.prems have "run_chain ms req s1 = (Respond r, st')" by simp
    from Cons.IH [OF this] show ?thesis by auto
  next
    case (Respond r')
    with m Cons.prems show ?thesis by auto
  next
    case (Throw x)
    with m Cons.prems show ?thesis by auto
  qed
qed

lemma run_chain_frame:
  assumes "\<And>m rq s. m \<in> set ms \<Longrightarrow>
             users (snd (m rq s)) = users s \<and> waitlistEntries (snd (m rq s)) = waitlistEntries s"
  shows "users (snd (run_chain ms req st)) = users st \<and>
         waitlistEntries (snd (run_chain ms req st)) = waitlistEntries st"
  using assms
proof (induction ms arbitrary: st)
  case Nil
  then show ?case by simp
next
  case (Cons m ms)
  obtain o1 s1 where m: "m req st = (o1, s1)" by (cases "m req st")
  from Cons.prems [of m req st] m
  have s1: "users s1 = users st \<and> waitlistEntries s1 = waitlistEntries st" by simp
  show ?case
  proof (cases o1)
    case Next
    have "users (snd (run_chain ms req s1)) = users s1 \<and>
          waitlistEntries (snd (run_chain ms req s1)) = waitlistEntries s1"
      by (rule Cons.IH) (simp add: Cons.prems)
    with m Next s1 show ?thesis by simp
  next
    case (Respond r')
    with m s1 show ?thesis by simp
  next
    case (Throw x)
    with m s1 show ?thesis by simp
  qed
qed

lemma stateless_frame:
  "users (snd (stateless f rq s)) = users s \<and>
   waitlistEntries (snd (stateless f rq s)) = waitlistEntries s"
  by (simp add: stateless_def)

lemma on_userRequestCounts_frame:
  "users (snd (on_userRequestCounts f rq s)) = users s \<and>
   waitlistEntries (snd (on_userRequestCounts f rq s)) = waitlistEntries s"
  by (simp add: on_userRequestCounts_def split: prod.splits)

lemma on_ipRequestCounts_frame:
  "users (snd (on_ipRequestCounts f rq s)) = users s \<and>
   waitlistEntries (snd (on_ipRequestCounts f rq s)) = waitlistEntries s"
  by (simp add: on_ipRequestCounts_def split: prod.splits)

lemma api_middleware_frame:
  "m \<in> set (api_middleware e) \<Longrightarrow>
   users (snd (m rq s)) = users s \<and> waitlistEntries (snd (m rq s)) = waitlistEntries s"
  by (auto simp add: api_middleware_def stateless_frame on_userRequestCounts_frame)

lemma public_gateway_frame:
  "m \<in> set (api_middleware e @
            [on_ipRequestCounts f, stateless g, stateless g']) \<Longrightarrow>
   users (snd (m rq s)) = users s \<and> waitlistEntries (snd (m rq s)) = waitlistEntries s"
  using api_middleware_frame [of m e rq s]
  by (auto simp add: stateless_frame on_ipRequestCounts_frame)

lemma rateLimitByUser_status:
  "rateLimitByUser mx win t rq m = (Respond r, m') \<Longrightarrow> status r = 429"
  by (auto simp add: rateLimitByUser_def Let_def user_limit_status
      split: option.splits if_splits)

lemma strictRateLimitByIP_status:
  "strictRateLimitByIP mx win t rq m = (Respond r, m') \<Longrightarrow> status r = 429"
  by (auto simp add: strictRateLimitByIP_def ip_limit_status split: option.splits if_splits)

lemma validateOrigin_status:
  "validateOrigin cfg l rq = Respond r \<Longrightarrow> status r = 403"
  by (auto simp add: validateOrigin_def origin_denied_def split: option.splits if_splits)

lemma public_gateway_status:
  assumes "m \<in> set (api_middleware e @
             [on_ipRequestCounts (strictRateLimitByIP mx win t), stateless (requireApiKey cfg),
              stateless (validateOrigin cfg l)])"
      and "m rq s = (Respond r, s')"
  shows "status r \<in> {401, 403, 429}"
proof -
  from assms(1) consider "m = stateless logAuthenticatedRequest"
    | "m = on_userRequestCounts (rateLimitByUser 100 (15 * 60 * 1000) (now e))"
    | "m = on_ipRequestCounts (strictRateLimitByIP mx win t)"
    | "m = stateless (requireApiKey cfg)" | "m = stateless (validateOrigin cfg l)"
    by (auto simp add: api_middleware_def)
  then show ?thesis
  proof cases
    case 1
    with assms(2) show ?thesis by (simp add: stateless_def logAuthenticatedRequest_def)
  next
    case 2
    with assms(2) show ?thesis
      by (auto simp add: on_userRequestCounts_def split: prod.splits dest: rateLimitByUser_status)
  next
    case 3
    with assms(2) show ?thesis
      by (auto simp add: on_ipRequestCounts_def split: prod.splits dest: strictRateLimitByIP_status)
  next
    case 4
    with assms(2) show ?thesis
      by (auto simp add: stateless_def dest: requireApiKey_status)
  next
    case 5
    with assms(2) show ?thesis
      by (auto simp add: stateless_def dest: validateOrigin_status)
  qed
qed


lemma register_handler_outcome:
  assumes "register_handler cfg l e req s = (out, st')"
  shows "(out = Throw TypeError \<and> st' = s) \<or>
         (out = Respond \<lparr>status = 400, body = message_body ''Invalid input''\<rparr> \<and> st' = s) \<or>
         (out = Respond \<lparr>status = 409, body = message_body ''User already exists''\<rparr> \<and> st' = s) \<or>
         (insertUserSchema_ok (normalized_username req) (body_password req) \<and>
          getUserByUsername s (normalized_username req) = None \<and>
          out = Respond \<lparr>status = 201,
                   body = JObj [(''user'', user_json (fresh_uuid e) (normalized_username req) ''user''),
                                (''token'',
                                 JStr (generateToken cfg l e
                                         \<lparr>claim_id = fresh_uuid e,
                                          claim_username = normalized_username req,
                                          claim_role = Some ''user''\<rparr>)),
                                (''message'', JStr ''Registration successful'')]\<rparr> \<and>
          st' = s\<lparr>users := AList.update (fresh_uuid e) (created_user l e req) (users s)\<rparr>)"
proof (cases "non_string (raw_username req)")
  case True
  with assms show ?thesis by (simp add: register_handler_non_string)
next
  case str: False
  show ?thesis
  proof (cases "insertUserSchema_ok (normalized_username req) (body_password req)")
    case False
    with str assms show ?thesis by (simp add: register_handler_invalid)
  next
    case True
    show ?thesis
    proof (cases "getUserByUsername s (normalized_username req)")
      case None
      with str True assms show ?thesis by (simp add: register_handler_created)
    next
      case (Some u)
      with str True assms show ?thesis by (simp add: register_handler_duplicate)
    qed
  qed
qed

lemma register_route_split:
  assumes "register_route cfg l e req st = (out, st')"
  shows "(\<exists>s. users s = users st \<and> waitlistEntries s = waitlistEntries st \<and>
              register_handler cfg l e req s = (out, st')) \<or>
         (users st' = users st \<and> waitlistEntries st' = waitlistEntries st \<and>
          (\<forall>r. out = Respond r \<longrightarrow> status r \<in> {401, 403, 429}))"
proof -
  let ?ms = "api_middleware e @
       [on_ipRequestCounts (strictRateLimitByIP 5 (60 * 60 * 1000) (now e)),
        stateless (requireApiKey cfg), stateless (validateOrigin cfg l)]"
  have fr: "users (snd (run_chain ?ms req st)) = users st \<and>
            waitlistEntries (snd (run_chain ?ms req st)) = waitlistEntries st"
    by (rule run_chain_frame) (rule public_gateway_frame)
  from assms have "run_chain (?ms @ [register_handler cfg l e]) req st = (out, st')"
    by (simp add: register_route_def)
  from run_chain_append_handler [OF this] show ?thesis
  proof
    assume "\<exists>s. run_chain ?ms req st = (Next, s) \<and> register_handler cfg l e req s = (out, st')"
    then obtain s where s: "run_chain ?ms req st = (Next, s)"
      and h: "register_handler cfg l e req s = (out, st')" by blast
    from fr s have "users s = users st \<and> waitlistEntries s = waitlistEntries st" by simp
    with h show ?thesis by blast
  next
    assume b: "out \<noteq> Next \<and> run_chain ?ms req st = (out, st')"
    with fr have f: "users st' = users st \<and> waitlistEntries st' = waitlistEntries st" by simp
    have "\<forall>r. out = Respond r \<longrightarrow> status r \<in> {401, 403, 429}"
    proof (intro allI impI)
      fix r assume "out = Respond r"
      with b have "run_chain ?ms req st = (Respond r, st')" by simp
      from run_chain_responder [OF this] obtain m s where "m \<in> set ?ms" "m req s = (Respond r, st')"
        by blast
      then show "status r \<in> {401, 403, 429}" by (rule public_gateway_status)
    qed
    with f show ?thesis by blast
  qed
qed

text \<open>
  C2 (as amended). A registration request that changes the stored users is answered with
  status 201, and every 201 answer of the registration route has the body
  \<open>{user: {id, username, role}, token, message: "Registration successful"}\<close>, where id,
  username and role are those of the user just stored and \<open>token\<close> is the access token
  signed for them. The body has no refresh token.
\<close>

theorem registration_success_response:
  assumes "register_route cfg l e req st = (out, st')"
  shows "(users st' \<noteq> users st \<longrightarrow> (\<exists>r. out = Respond r \<and> status r = 201)) \<and>
         (\<forall>r. out = Respond r \<and> status r = 201 \<longrightarrow>
            map_of (users st') (u_id (created_user l e req)) = Some (created_user l e req) \<and>
            body r =
              JObj [(''user'', user_json (u_id (created_user l e req))
                                 (u_username (created_user l e req))
                                 (u_role (created_user l e req))),
                    (''token'',
                     JStr (generateToken cfg l e
                             \<lparr>claim_id = u_id (created_user l e req),
                              claim_username = u_username (created_user l e req),
                              claim_role = Some (u_role (created_user l e req))\<rparr>)),
                    (''message'', JStr ''Registration successful'')] \<and>
            json_field (body r) ''refreshToken'' = None)"
proof -
  from register_route_split [OF assms] show ?thesis
  proof
    assume "\<exists>s. users s = users st \<and> waitlistEntries s = waitlistEntries st \<and>
              register_handler cfg l e req s = (out, st')"
    then obtain s where s: "users s = users st"
      and h: "register_handler cfg l e req s = (out, st')" by blast
    from register_handler_outcome [OF h] s show ?thesis
      by (auto simp add: created_user_def update_conv' message_body_def)
  next
    assume "users st' = users st \<and> waitlistEntries st' = waitlistEntries st \<and>
          (\<forall>r. out = Respond r \<longrightarrow> status r \<in> {401, 403, 429})"
    then show ?thesis by auto
  qed
qed


lemma run_chain_single: "run_chain [h] req st = h req st"
proof (cases "h req st")
  case (Pair out st')
  then show ?thesis by (cases out) simp_all
qed

lemma sample_register_gateway:
  "register_route dev_config l (sample_env t) (sample_register_request u p) initial_state =
     register_handler dev_config l (sample_env t) (sample_register_request u p)
       (initial_state
          \<lparr>userRequestCounts := [''203.0.113.7'' \<mapsto> \<lparr>count = 1, resetTime = t + 900000\<rparr>],
           ipRequestCounts := [''203.0.113.7'' \<mapsto> \<lparr>count = 1, resetTime = t + 3600000\<rparr>]\<rparr>)"
proof -
  let ?req = "sample_register_request u p"
  let ?s1 = "initial_state
      \<lparr>userRequestCounts := [''203.0.113.7'' \<mapsto> \<lparr>count = 1, resetTime = t + 900000\<rparr>]\<rparr>"
  let ?s2 = "initial_state
      \<lparr>userRequestCounts := [''203.0.113.7'' \<mapsto> \<lparr>count = 1, resetTime = t + 900000\<rparr>],
       ipRequestCounts := [''203.0.113.7'' \<mapsto> \<lparr>count = 1, resetTime = t + 3600000\<rparr>]\<rparr>"
  have a: "stateless logAuthenticatedRequest ?req initial_state = (Next, initial_state)"
    by (simp add: stateless_def logAuthenticatedRequest_def)
  have b: "on_userRequestCounts (rateLimitByUser 100 (15 * 60 * 1000) (now (sample_env t)))
             ?req initial_state = (Next, ?s1)"
    by (simp add: on_userRequestCounts_def rateLimitByUser_def sample_env_def
        sample_register_request_def blank_request_def initial_state_def)
  have c: "on_ipRequestCounts (strictRateLimitByIP 5 (60 * 60 * 1000) (now (sample_env t)))
             ?req ?s1 = (Next, ?s2)"
    by (simp add: on_ipRequestCounts_def strictRateLimitByIP_def clientIP_def sample_env_def
        sample_register_request_def blank_request_def initial_state_def)
  have d: "stateless (requireApiKey dev_config) ?req ?s2 = (Next, ?s2)"
    by (simp add: stateless_def requireApiKey_def dev_config_def sample_register_request_def
        blank_request_def)
  have e: "stateless (validateOrigin dev_config l) ?req ?s2 = (Next, ?s2)"
    by (simp add: stateless_def validateOrigin_def dev_config_def sample_register_request_def
        blank_request_def)
  show ?thesis
    unfolding register_route_def api_middleware_def append.simps
    by (simp only:
        run_chain_Next [of "stateless logAuthenticatedRequest" ?req initial_state initial_state,
          OF a]
        run_chain_Next [of "on_userRequestCounts
            (rateLimitByUser 100 (15 * 60 * 1000) (now (sample_env t)))" ?req initial_state ?s1,
          OF b]
        run_chain_Next [of "on_ipRequestCounts
            (strictRateLimitByIP 5 (60 * 60 * 1000) (now (sample_env t)))" ?req ?s1 ?s2, OF c]
        run_chain_Next [of "stateless (requireApiKey dev_config)" ?req ?s2 ?s2, OF d]
        run_chain_Next [of "stateless (validateOrigin dev_config l)" ?req ?s2 ?s2, OF e]
        run_chain_single)
qed

lemma sample_raw_username: "raw_username (sample_register_request u p) = Str u"
  by (simp add: raw_username_def sample_register_request_def blank_request_def)

lemma sample_normalized_username:
  "normalized_username (sample_register_request ''  Test@Example.COM '' p) = ''test@example.com''"
proof -
  have "toLowerCase (trim ''  Test@Example.COM '') = ''test@example.com''"
    by code_simp
  then show ?thesis
    by (simp add: normalized_username_def sample_raw_username)
qed

lemma sample_email_shape: "emailRegex_test ''test@example.com''"
  by code_simp


lemma sample_password [simp]:
  "body_password (sample_register_request u p) = Str p"
  by (simp add: sample_register_request_def)

lemma sample_no_user:
  "users s = [] \<Longrightarrow> getUserByUsername s n = None"
  by (simp add: getUserByUsername_def)

lemma sample_registration:
  assumes "6 \<le> length p"
  shows "register_route dev_config l (sample_env t)
           (sample_register_request ''  Test@Example.COM '' p) initial_state =
         (Respond \<lparr>status = 201,
             body = JObj [(''user'', user_json ''uuid-1'' ''test@example.com'' ''user''),
                          (''token'',
                           JStr (generateToken dev_config l (sample_env t)
                                   \<lparr>claim_id = ''uuid-1'', claim_username = ''test@example.com'',
                                    claim_role = Some ''user''\<rparr>)),
                          (''message'', JStr ''Registration successful'')]\<rparr>,
          initial_state
            \<lparr>userRequestCounts := [''203.0.113.7'' \<mapsto> \<lparr>count = 1, resetTime = t + 900000\<rparr>],
             ipRequestCounts := [''203.0.113.7'' \<mapsto> \<lparr>count = 1, resetTime = t + 3600000\<rparr>],
             users := [(''uuid-1'',
                        created_user l (sample_env t)
                          (sample_register_request ''  Test@Example.COM '' p))]\<rparr>)"
proof -
  let ?req = "sample_register_request ''  Test@Example.COM '' p"
  let ?s2 = "initial_state
      \<lparr>userRequestCounts := [''203.0.113.7'' \<mapsto> \<lparr>count = 1, resetTime = t + 900000\<rparr>],
       ipRequestCounts := [''203.0.113.7'' \<mapsto> \<lparr>count = 1, resetTime = t + 3600000\<rparr>]\<rparr>"
  have ok: "insertUserSchema_ok (normalized_username ?req) (body_password ?req)"
    using assms by (simp add: insertUserSchema_ok_iff sample_normalized_username sample_email_shape)
  have str: "\<not> non_string (raw_username ?req)"
    by (simp add: sample_raw_username)
  have none: "getUserByUsername ?s2 (normalized_username ?req) = None"
    by (rule sample_no_user) (simp add: initial_state_def)
  show ?thesis
    unfolding sample_register_gateway register_handler_created [OF str ok none]
    by (simp add: sample_normalized_username sample_env_def initial_state_def)
qed

text \<open>The registration of \<open>Test@Example.COM\<close> with the password \<open>secret123\<close> on a fresh server.\<close>

theorem registration_success_response_witness:
  "map_of
     (users (snd (register_route dev_config stand_in_lib (sample_env 0)
                    (sample_register_request ''  Test@Example.COM '' ''secret123'') initial_state)))
     ''uuid-1'' =
     Some \<lparr>u_id = ''uuid-1'', u_username = ''test@example.com'', u_password = ''saltsecret123'',
           u_role = ''user'', u_emailVerified = None, u_emailVerificationToken = None,
           u_emailVerificationExpires = None, u_createdAt = 0, u_updatedAt = 0\<rparr> \<and>
   fst (register_route dev_config stand_in_lib (sample_env 0)
          (sample_register_request ''  Test@Example.COM '' ''secret123'') initial_state) =
     Respond \<lparr>status = 201,
        body = JObj [(''user'', user_json ''uuid-1'' ''test@example.com'' ''user''),
                     (''token'', JStr ''signed''),
                     (''message'', JStr ''Registration successful'')]\<rparr>"
proof -
  let ?req = "sample_register_request ''  Test@Example.COM '' ''secret123''"
  let ?R = "register_route dev_config stand_in_lib (sample_env 0) ?req initial_state"
  have R: "?R = (fst ?R, snd ?R)" by simp
  have v: "fst ?R = Respond \<lparr>status = 201,
        body = JObj [(''user'', user_json ''uuid-1'' ''test@example.com'' ''user''),
                     (''token'', JStr ''signed''),
                     (''message'', JStr ''Registration successful'')]\<rparr>"
    by (simp add: sample_registration generateToken_def stand_in_lib_def)
  have c: "created_user stand_in_lib (sample_env 0) ?req =
      \<lparr>u_id = ''uuid-1'', u_username = ''test@example.com'', u_password = ''saltsecret123'',
       u_role = ''user'', u_emailVerified = None, u_emailVerificationToken = None,
       u_emailVerificationExpires = None, u_createdAt = 0, u_updatedAt = 0\<rparr>"
    by (simp add: created_user_def sample_normalized_username stand_in_lib_def sample_env_def)
  from registration_success_response [OF R, THEN conjunct2, rule_format, OF conjI [OF v]]
  have "map_of (users (snd ?R)) (u_id (created_user stand_in_lib (sample_env 0) ?req)) =
      Some (created_user stand_in_lib (sample_env 0) ?req)"
    by simp
  with c v show ?thesis by simp
qed

text \<open>
  C2 as stated puts a refresh token beside the access token. The 201 answer to that
  registration has the members \<open>user\<close>, \<open>token\<close> and \<open>message\<close> only.
\<close>

theorem registration_refresh_token_counterexample:
  "fst (register_route dev_config stand_in_lib (sample_env 0)
          (sample_register_request ''  Test@Example.COM '' ''secret123'') initial_state) =
     Respond \<lparr>status = 201,
        body = JObj [(''user'', user_json ''uuid-1'' ''test@example.com'' ''user''),
                     (''token'', JStr ''signed''),
                     (''message'', JStr ''Registration successful'')]\<rparr> \<and>
   json_field
     (JObj [(''user'', user_json ''uuid-1'' ''test@example.com'' ''user''),
            (''token'', JStr ''signed''),
            (''message'', JStr ''Registration successful'')]) ''refreshToken'' = None"
  by (simp add: sample_registration generateToken_def stand_in_lib_def)


section \<open>Validation of registration input\<close>



text \<open>White space and lower case at the borders of their ranges.\<close>

lemma is_space_borders:
  "filter is_space
     [CHR 0x08, CHR 0x09, CHR 0x0A, CHR 0x0B, CHR 0x0C, CHR 0x0D, CHR 0x0E, CHR 0x1F, CHR '' '',
      CHR ''!'', CHR 0x85, CHR 0x9F, CHR 0xA0, CHR 0xA1, CHR 0xFF] =
     [CHR 0x09, CHR 0x0A, CHR 0x0B, CHR 0x0C, CHR 0x0D, CHR '' '', CHR 0xA0]"
  by code_simp

lemma lower_char_borders:
  "map lower_char
     [CHR ''@'', CHR ''A'', CHR ''Z'', CHR ''['', CHR ''a'', CHR ''z'', CHR 0xBF, CHR 0xC0,
      CHR 0xD6, CHR 0xD7, CHR 0xD8, CHR 0xDE, CHR 0xDF, CHR 0xE0, CHR 0xFF] =
     [CHR ''@'', CHR ''a'', CHR ''z'', CHR ''['', CHR ''a'', CHR ''z'', CHR 0xBF, CHR 0xE0,
      CHR 0xF6, CHR 0xD7, CHR 0xF8, CHR 0xFE, CHR 0xDF, CHR 0xE0, CHR 0xFF]"
  by code_simp








text \<open>
  A username that is not a string (a number, say) has no \<open>trim\<close>: the handler ends in
  \<open>next(err)\<close> with the \<open>TypeError\<close>, before the schema is consulted.
\<close>

theorem register_non_string_username_throws:
  "non_string (nullish (nullish (body_username req) (body_email req)) (Str [])) \<Longrightarrow>
   register_handler cfg l e req st = (Throw TypeError, st)"
  by (simp add: register_handler_def raw_username_def)

text \<open>A registration whose username is a JSON number.\<close>

theorem register_non_string_username_throws_witness:
  "register_handler dev_config stand_in_lib (sample_env 0)
       (blank_request\<lparr>body_username := NonString True, body_password := Str ''secret123''\<rparr>)
       initial_state =
     (Throw TypeError, initial_state)"
  using register_non_string_username_throws [of
      "blank_request\<lparr>body_username := NonString True, body_password := Str ''secret123''\<rparr>"
      dev_config stand_in_lib "sample_env 0" initial_state]
  by (simp add: blank_request_def)


section \<open>Login failures\<close>

lemma login_handler_unknown:
  "\<not> non_string (raw_username req) \<Longrightarrow>
   normalized_username req \<noteq> [] \<Longrightarrow> \<not> falsy (body_password req) \<Longrightarrow>
   getUserByUsername st (normalized_username req) = None \<Longrightarrow>
   login_handler cfg l e req st = (Respond invalid_credentials, st)"
  by (simp add: login_handler_def)

lemma login_handler_wrong_password:
  "\<not> non_string (raw_username req) \<Longrightarrow>
   normalized_username req \<noteq> [] \<Longrightarrow> \<not> falsy (body_password req) \<Longrightarrow>
   getUserByUsername st (normalized_username req) = Some u \<Longrightarrow>
   bcrypt_compare l (body_password req) (u_password u) = Inr False \<Longrightarrow>
   login_handler cfg l e req st = (Respond invalid_credentials, st)"
  by (simp add: login_handler_def passwordUtils_verify_def)

lemma login_handler_rejected:
  "\<not> non_string (raw_username req) \<Longrightarrow>
   normalized_username req \<noteq> [] \<Longrightarrow> \<not> falsy (body_password req) \<Longrightarrow>
   getUserByUsername st (normalized_username req) = Some u \<Longrightarrow>
   bcrypt_compare l (body_password req) (u_password u) = Inl err \<Longrightarrow>
   login_handler cfg l e req st = (Throw err, st)"
  by (simp add: login_handler_def passwordUtils_verify_def)

text \<open>
  C5. The claim has every login with an unknown username and every login with a stored
  username and a wrong password answered alike, 401 "Invalid credentials". The handler awaits
  \<open>passwordUtils.verify\<close> inside its \<open>try\<close>, and \<open>passwordUtils.verify\<close> hands the password
  of the body and the stored password to \<open>bcrypt.compare\<close> with no check and no \<open>catch\<close>.
  So take two login requests with a username and a truthy password, the first for a name
  without a stored user and the second for a name with one, and let \<open>bcrypt.compare\<close> reject
  on the second (as it does for a password that is a JSON number, and for a stored password of
  60 characters that is no bcrypt record). The first is answered 401 "Invalid credentials";
  the second ends in \<open>next(err)\<close>, which the error handler answers with status 500. The two
  outcomes differ, and they tell whether the name is stored.
\<close>

theorem login_rejection_breaks_parity:
  assumes "\<not> non_string (raw_username req1)" and "normalized_username req1 \<noteq> []"
      and "\<not> falsy (body_password req1)"
      and "getUserByUsername st (normalized_username req1) = None"
      and "\<not> non_string (raw_username req2)" and "normalized_username req2 \<noteq> []"
      and "\<not> falsy (body_password req2)"
      and "getUserByUsername st (normalized_username req2) = Some u"
      and "bcrypt_compare l (body_password req2) (u_password u) = Inl err"
  shows "login_handler cfg l e req1 st =
           (Respond \<lparr>status = 401, body = JObj [(''message'', JStr ''Invalid credentials'')]\<rparr>,
            st) \<and>
         login_handler cfg l e req2 st = (Throw err, st) \<and>
         sent_status (fst (login_handler cfg l e req1 st)) = Some 401 \<and>
         sent_status (fst (login_handler cfg l e req2 st)) = Some 500"
  using assms
  by (simp add: login_handler_unknown login_handler_rejected invalid_credentials_def
      message_body_def error_status_def)

lemma sample_login_raw: "raw_username (sample_login_request u p) = Str u"
  by (simp add: raw_username_def sample_login_request_def blank_request_def)

lemma sample_login_password: "body_password (sample_login_request u p) = p"
  by (simp add: sample_login_request_def)

lemma sample_login_names:
  "toLowerCase (trim ''nobody@example.com'') = ''nobody@example.com''"
  "toLowerCase (trim ''Test@Example.com'') = ''test@example.com''"
  "toLowerCase (trim ''raw@example.com'') = ''raw@example.com''"
  by code_simp+

lemma sample_login_username:
  "normalized_username (sample_login_request ''nobody@example.com'' p) = ''nobody@example.com''"
  "normalized_username (sample_login_request ''Test@Example.com'' p) = ''test@example.com''"
  "normalized_username (sample_login_request ''raw@example.com'' p) = ''raw@example.com''"
  by (simp_all add: normalized_username_def sample_login_raw sample_login_names)

lemma one_user_lookup:
  "getUserByUsername one_user_state ''nobody@example.com'' = None"
  "getUserByUsername one_user_state ''test@example.com'' =
     Some \<lparr>u_id = ''uuid-1'', u_username = ''test@example.com'',
           u_password = ''saltsecret123'', u_role = ''user'', u_emailVerified = None,
           u_emailVerificationToken = None, u_emailVerificationExpires = None,
           u_createdAt = 0, u_updatedAt = 0\<rparr>"
  by (simp_all add: getUserByUsername_def one_user_state_def)

lemma raw_password_lookup:
  "getUserByUsername raw_password_state ''nobody@example.com'' = None"
  "getUserByUsername raw_password_state ''raw@example.com'' =
     Some \<lparr>u_id = ''uuid-2'', u_username = ''raw@example.com'',
           u_password = replicate 60 (CHR ''x''), u_role = ''user'', u_emailVerified = None,
           u_emailVerificationToken = None, u_emailVerificationExpires = None,
           u_createdAt = 0, u_updatedAt = 0\<rparr>"
  by (simp_all add: getUserByUsername_def raw_password_state_def)

lemma stand_in_compare_non_string:
  "bcrypt_compare stand_in_lib (NonString t) h = Inl (LibError ''Illegal arguments'')"
  by (simp add: stand_in_lib_def)

lemma stand_in_compare_raw:
  "bcrypt_compare stand_in_lib (Str p) (replicate 60 (CHR ''x'')) =
     Inl (LibError ''Invalid salt version'')"
proof -
  have "take 2 (replicate 60 (CHR ''x'')) \<noteq> ''$2''"
    by code_simp
  then show ?thesis
    by (simp add: stand_in_lib_def)
qed

lemma stand_in_compare_wrong:
  "bcrypt_compare stand_in_lib (Str ''wrongpass'') ''saltsecret123'' = Inr False"
  by (simp add: stand_in_lib_def)

text \<open>
  The password \<open>12345678\<close> sent as a JSON number, for an unknown name and for the stored
  one; and the password \<open>secret123\<close> for an unknown name and for the user whose stored
  password is no bcrypt record.
\<close>

theorem login_rejection_breaks_parity_witness:
  "login_handler dev_config stand_in_lib (sample_env 0)
       (sample_login_request ''nobody@example.com'' (NonString True)) one_user_state =
     (Respond \<lparr>status = 401, body = JObj [(''message'', JStr ''Invalid credentials'')]\<rparr>,
      one_user_state) \<and>
   login_handler dev_config stand_in_lib (sample_env 0)
       (sample_login_request ''Test@Example.com'' (NonString True)) one_user_state =
     (Throw (LibError ''Illegal arguments''), one_user_state) \<and>
   login_handler dev_config stand_in_lib (sample_env 0)
       (sample_login_request ''nobody@example.com'' (Str ''secret123'')) raw_password_state =
     (Respond \<lparr>status = 401, body = JObj [(''message'', JStr ''Invalid credentials'')]\<rparr>,
      raw_password_state) \<and>
   login_handler dev_config stand_in_lib (sample_env 0)
       (sample_login_request ''raw@example.com'' (Str ''secret123'')) raw_password_state =
     (Throw (LibError ''Invalid salt version''), raw_password_state) \<and>
   sent_status (fst (login_handler dev_config stand_in_lib (sample_env 0)
       (sample_login_request ''nobody@example.com'' (NonString True)) one_user_state)) = Some 401 \<and>
   sent_status (fst (login_handler dev_config stand_in_lib (sample_env 0)
       (sample_login_request ''Test@Example.com'' (NonString True)) one_user_state)) = Some 500"
proof -
  let ?n1 = "sample_login_request ''nobody@example.com'' (NonString True)"
  let ?n2 = "sample_login_request ''Test@Example.com'' (NonString True)"
  let ?s1 = "sample_login_request ''nobody@example.com'' (Str ''secret123'')"
  let ?s2 = "sample_login_request ''raw@example.com'' (Str ''secret123'')"
  let ?u = "\<lparr>u_id = ''uuid-1'', u_username = ''test@example.com'',
             u_password = ''saltsecret123'', u_role = ''user'', u_emailVerified = None,
             u_emailVerificationToken = None, u_emailVerificationExpires = None,
             u_createdAt = 0, u_updatedAt = 0\<rparr>"
  let ?v = "\<lparr>u_id = ''uuid-2'', u_username = ''raw@example.com'',
             u_password = replicate 60 (CHR ''x''), u_role = ''user'', u_emailVerified = None,
             u_emailVerificationToken = None, u_emailVerificationExpires = None,
             u_createdAt = 0, u_updatedAt = 0\<rparr>"
  have str: "\<not> non_string (raw_username (sample_login_request n p))" for n p
    by (simp add: sample_login_raw)
  have ne: "normalized_username ?n1 \<noteq> []" "normalized_username ?n2 \<noteq> []"
    "normalized_username ?s1 \<noteq> []" "normalized_username ?s2 \<noteq> []"
    by (simp_all add: sample_login_username)
  have pw: "\<not> falsy (body_password ?n1)" "\<not> falsy (body_password ?n2)"
    "\<not> falsy (body_password ?s1)" "\<not> falsy (body_password ?s2)"
    by (simp_all add: sample_login_password)
  have n1: "getUserByUsername one_user_state (normalized_username ?n1) = None"
    and n2: "getUserByUsername one_user_state (normalized_username ?n2) = Some ?u"
    by (simp_all add: sample_login_username one_user_lookup)
  have s1: "getUserByUsername raw_password_state (normalized_username ?s1) = None"
    and s2: "getUserByUsername raw_password_state (normalized_username ?s2) = Some ?v"
    by (simp_all add: sample_login_username raw_password_lookup)
  have cn: "bcrypt_compare stand_in_lib (body_password ?n2) (u_password ?u) =
      Inl (LibError ''Illegal arguments'')"
    by (simp add: sample_login_password stand_in_compare_non_string)
  have cs: "bcrypt_compare stand_in_lib (body_password ?s2) (u_password ?v) =
      Inl (LibError ''Invalid salt version'')"
    by (simp add: sample_login_password stand_in_compare_raw)
  from login_rejection_breaks_parity [OF str ne(1) pw(1) n1 str ne(2) pw(2) n2 cn,
      of dev_config "sample_env 0"]
    login_rejection_breaks_parity [OF str ne(3) pw(3) s1 str ne(4) pw(4) s2 cs,
      of dev_config "sample_env 0"]
  show ?thesis
    by (simp add: error_status_def)
qed

text \<open>
  When \<open>bcrypt.compare\<close> answers \<open>false\<close> for the stored user, the two responses are
  equal: status 401 with the body \<open>{message: "Invalid credentials"}\<close>, and neither request
  changes the state.
\<close>

theorem login_failure_parity:
  assumes "\<not> non_string (raw_username req1)" and "normalized_username req1 \<noteq> []"
      and "\<not> falsy (body_password req1)"
      and "getUserByUsername st1 (normalized_username req1) = None"
      and "\<not> non_string (raw_username req2)" and "normalized_username req2 \<noteq> []"
      and "\<not> falsy (body_password req2)"
      and "getUserByUsername st2 (normalized_username req2) = Some u"
      and "bcrypt_compare l (body_password req2) (u_password u) = Inr False"
  shows "fst (login_handler cfg l e1 req1 st1) = fst (login_handler cfg l e2 req2 st2) \<and>
         fst (login_handler cfg l e1 req1 st1) =
           Respond \<lparr>status = 401, body = JObj [(''message'', JStr ''Invalid credentials'')]\<rparr> \<and>
         snd (login_handler cfg l e1 req1 st1) = st1 \<and>
         snd (login_handler cfg l e2 req2 st2) = st2"
  using assms
  by (simp add: login_handler_unknown login_handler_wrong_password invalid_credentials_def
      message_body_def)

text \<open>An unknown username and a wrong password for a stored one.\<close>

theorem login_failure_parity_witness:
  "login_handler dev_config stand_in_lib (sample_env 0)
       (sample_login_request ''nobody@example.com'' (Str ''secret123'')) one_user_state =
     (Respond \<lparr>status = 401, body = JObj [(''message'', JStr ''Invalid credentials'')]\<rparr>,
      one_user_state) \<and>
   login_handler dev_config stand_in_lib (sample_env 5)
       (sample_login_request ''Test@Example.com'' (Str ''wrongpass'')) one_user_state =
     (Respond \<lparr>status = 401, body = JObj [(''message'', JStr ''Invalid credentials'')]\<rparr>,
      one_user_state)"
proof -
  let ?r1 = "sample_login_request ''nobody@example.com'' (Str ''secret123'')"
  let ?r2 = "sample_login_request ''Test@Example.com'' (Str ''wrongpass'')"
  let ?u = "\<lparr>u_id = ''uuid-1'', u_username = ''test@example.com'',
             u_password = ''saltsecret123'', u_role = ''user'', u_emailVerified = None,
             u_emailVerificationToken = None, u_emailVerificationExpires = None,
             u_createdAt = 0, u_updatedAt = 0\<rparr>"
  have str: "\<not> non_string (raw_username (sample_login_request n p))" for n p
    by (simp add: sample_login_raw)
  have a1: "normalized_username ?r1 \<noteq> []" and a4: "normalized_username ?r2 \<noteq> []"
    by (simp_all add: sample_login_username)
  have a2: "\<not> falsy (body_password ?r1)" and a5: "\<not> falsy (body_password ?r2)"
    by (simp_all add: sample_login_password)
  have a3: "getUserByUsername one_user_state (normalized_username ?r1) = None"
    by (simp add: sample_login_username one_user_lookup)
  have a6: "getUserByUsername one_user_state (normalized_username ?r2) = Some ?u"
    by (simp add: sample_login_username one_user_lookup)
  have a7: "bcrypt_compare stand_in_lib (body_password ?r2) (u_password ?u) = Inr False"
    by (simp add: sample_login_password stand_in_compare_wrong)
  from login_failure_parity [OF str a1 a2 a3 str a4 a5 a6 a7,
      of dev_config "sample_env 0" "sample_env 5"]
  show ?thesis
    by (auto simp add: prod_eq_iff)
qed


section \<open>Verifying a password\<close>

text \<open>
  C7. The claim has \<open>passwordUtils.verify\<close> return false, and never throw, for every stored
  record that \<open>passwordUtils.hash\<close> did not produce. \<open>passwordUtils.verify\<close> is
  \<open>bcrypt.compare\<close> and nothing else, with no check of the record and no \<open>catch\<close>:
  whenever the library rejects (as \<open>bcryptjs\<close> does for a record of 60 characters that does
  not begin with \<open>$2\<close>), so does \<open>passwordUtils.verify\<close>, with the same error.
\<close>

theorem passwordUtils_verify_propagates_rejection:
  "bcrypt_compare l password hash = Inl err \<Longrightarrow> passwordUtils_verify l password hash = Inl err"
  by (simp add: passwordUtils_verify_def)

text \<open>The password \<open>secret123\<close> against a stored record of 60 letters \<open>x\<close>.\<close>

theorem passwordUtils_verify_propagates_rejection_witness:
  "passwordUtils_verify stand_in_lib (Str ''secret123'') (replicate 60 (CHR ''x'')) =
     Inl (LibError ''Invalid salt version'')"
  using passwordUtils_verify_propagates_rejection [of stand_in_lib "Str ''secret123''"
      "replicate 60 (CHR ''x'')" "LibError ''Invalid salt version''"]
  by (simp add: stand_in_compare_raw)


section \<open>Comparing a token with the stored hash\<close>


lemma verifyTokenHash_match:
  "hashVerificationToken l token = hash \<Longrightarrow> verifyTokenHash l token hash = Inr True"
  by (simp add: verifyTokenHash_def timingSafeEqual_def)

text \<open>
  C4. The claim has \<open>verifyTokenHash\<close> return a boolean for every stored hash, thanks to a
  length check before the comparison. The function has no such check: it hands both strings to
  \<open>crypto.timingSafeEqual\<close> as buffers, so whenever the stored hash does not take as many
  bytes as the digest of the token, the \<open>RangeError\<close> of \<open>timingSafeEqual\<close> leaves the
  function. (Its documentation promises "true if the token matches the hash, false
  otherwise".)
\<close>

theorem verifyTokenHash_length_mismatch:
  "utf8_length hash \<noteq> utf8_length (hashVerificationToken l token) \<Longrightarrow>
   verifyTokenHash l token hash = Inl RangeError"
  by (simp add: verifyTokenHash_def timingSafeEqual_def)

lemma utf8_length_ascii:
  "\<forall>c\<in>set s. of_char c < (128::nat) \<Longrightarrow> utf8_length s = length s"
  by (simp add: utf8_length_def filter_empty_conv not_le)

lemma utf8_length_Nil: "utf8_length [] = 0"
  by (simp add: utf8_length_def)

lemma stand_in_digest_length: "utf8_length (hashVerificationToken stand_in_lib token) = 64"
proof -
  let ?d = "take 64 (filter (\<lambda>c. of_char c < (128::nat)) token @ replicate 64 (CHR ''0''))"
  have "\<forall>c\<in>set ?d. of_char c < (128::nat)"
    by (auto dest!: in_set_takeD)
  then have "utf8_length ?d = length ?d"
    by (rule utf8_length_ascii)
  then show ?thesis
    by (simp add: hashVerificationToken_def stand_in_lib_def)
qed

lemma sample_byte_lengths:
  "utf8_length ''abc'' = 3"
  "utf8_length (CHR 0xE9 # replicate 63 (CHR ''0'')) = 65"
  by code_simp+

text \<open>
  A stored hash of three characters against a digest of 64 bytes, and a stored hash of 64
  characters that takes 65 bytes.
\<close>

theorem verifyTokenHash_length_mismatch_witness:
  "verifyTokenHash stand_in_lib ''c0ffee'' ''abc'' = Inl RangeError \<and>
   verifyTokenHash stand_in_lib ''c0ffee'' (CHR 0xE9 # replicate 63 (CHR ''0'')) = Inl RangeError"
  using verifyTokenHash_length_mismatch [of "''abc''" stand_in_lib "''c0ffee''"]
    verifyTokenHash_length_mismatch [of "CHR 0xE9 # replicate 63 (CHR ''0'')" stand_in_lib
      "''c0ffee''"]
  by (simp add: stand_in_digest_length sample_byte_lengths)

section \<open>Confirming a verification\<close>

lemma verify_waitlist_not_pending:
  assumes "\<not> falsy (query_token req)" and "\<not> falsy (query_email req)"
      and "\<And>m entry. query_email req = Str m \<Longrightarrow> getWaitlistEntryByEmail st m = Some entry \<Longrightarrow>
             \<not> truthy (w_emailVerificationToken entry)"
  shows "verify_waitlist_handler l e req st =
           (Respond \<lparr>status = 404, body = message_body ''Invalid verification link''\<rparr>, st)"
proof (cases "query_email req")
  case (Str m)
  show ?thesis
  proof (cases "getWaitlistEntryByEmail st m")
    case None
    with Str assms(1,2) show ?thesis by (simp add: verify_waitlist_handler_def)
  next
    case (Some entry)
    from assms(3) [OF Str Some] Str Some assms(1,2) show ?thesis
      by (simp add: verify_waitlist_handler_def)
  qed
next
  case Undefined
  with assms(2) show ?thesis by simp
next
  case Null
  with assms(2) show ?thesis by simp
next
  case (NonString t)
  with assms(1,2) show ?thesis by (simp add: verify_waitlist_handler_def)
qed







lemma digest_pending:
  assumes "\<forall>t. utf8_length (hashVerificationToken l t) = 64"
  shows "hashVerificationToken l t0 \<noteq> []"
    and "utf8_length (hashVerificationToken l t0) = utf8_length (hashVerificationToken l token)"
proof -
  from assms have "utf8_length (hashVerificationToken l t0) = 64" by simp
  then show "hashVerificationToken l t0 \<noteq> []"
    by (auto simp add: utf8_length_Nil)
  from assms show
    "utf8_length (hashVerificationToken l t0) = utf8_length (hashVerificationToken l token)"
    by simp
qed







lemma stand_in_digests: "\<forall>t. utf8_length (hashVerificationToken stand_in_lib t) = 64"
  by (simp add: stand_in_digest_length)

lemma pending_waitlist_lookup:
  "getWaitlistEntryByEmail (pending_waitlist_state h x) ''ann@example.com'' =
     Some (pending_entry h x)"
  "getWaitlistEntryByEmail (pending_waitlist_state h x) ''bob@example.com'' = None"
  by (simp_all add: getWaitlistEntryByEmail_def pending_waitlist_state_def)


lemma sample_verify_query:
  "query_token (sample_verify_request token email) = Str token"
  "query_email (sample_verify_request token email) = Str email"
  by (simp_all add: sample_verify_request_def)


text \<open>
  With a stored hash that is no digest (three characters, say), which no handler writes, the
  exception of \<open>verifyTokenHash\<close> leaves the handler, which passes it to the error handler of
  Express.
\<close>

lemma verify_waitlist_short_hash_throws:
  "verify_waitlist_handler stand_in_lib (sample_env 500)
       (sample_verify_request ''c0ffee'' ''ann@example.com'')
       (pending_waitlist_state (Some ''abc'') (Some 1000)) =
     (Throw RangeError, pending_waitlist_state (Some ''abc'') (Some 1000))"
  by (simp add: verify_waitlist_handler_def sample_verify_query pending_waitlist_lookup
      pending_entry_def verifyTokenHash_def timingSafeEqual_def stand_in_digest_length
      sample_byte_lengths)

text \<open>
  A token that is not a string (\<open>?token=a&token=b\<close> is parsed to an array) passes the
  test for presence; when the entry holds a hash, hashing the token throws and the handler
  ends in \<open>next(err)\<close>.
\<close>

lemma verify_waitlist_array_token_throws:
  "verify_waitlist_handler stand_in_lib (sample_env 500)
       (blank_request\<lparr>query_token := NonString True, query_email := Str ''ann@example.com''\<rparr>)
       (pending_waitlist_state (Some (hashVerificationToken stand_in_lib ''c0ffee'')) (Some 1000)) =
     (Throw TypeError,
      pending_waitlist_state (Some (hashVerificationToken stand_in_lib ''c0ffee'')) (Some 1000))"
proof -
  have "hashVerificationToken stand_in_lib ''c0ffee'' \<noteq> []"
    by (rule digest_pending(1) [OF stand_in_digests])
  then show ?thesis
    by (simp add: verify_waitlist_handler_def blank_request_def pending_waitlist_lookup
        pending_entry_def)
qed


section \<open>Waitlist entries in MemStorage\<close>

lemma set_update_cases:
  "x \<in> set (AList.update k v al) \<Longrightarrow> x = (k, v) \<or> x \<in> set al"
  by (induction al) (auto split: if_splits)

lemma createWaitlistEntry_unverified:
  "w_emailVerified (fst (createWaitlistEntry e entry st)) = None \<and>
   w_emailVerificationToken (fst (createWaitlistEntry e entry st)) = None \<and>
   w_emailVerificationExpires (fst (createWaitlistEntry e entry st)) = None \<and>
   getWaitlistEntryByEmail (snd (createWaitlistEntry e entry st)) (ed_email entry) =
     Some (fst (createWaitlistEntry e entry st))"
  by (simp add: createWaitlistEntry_def Let_def getWaitlistEntryByEmail_def update_conv')

lemma createWaitlistEntry_set:
  "x \<in> set (waitlistEntries (snd (createWaitlistEntry e entry st))) \<Longrightarrow>
   x = (ed_email entry, fst (createWaitlistEntry e entry st)) \<or> x \<in> set (waitlistEntries st)"
  by (auto simp add: createWaitlistEntry_def Let_def dest: set_update_cases)

lemma createWaitlistEntry_users:
  "users (snd (createWaitlistEntry e entry st)) = users st"
  by (simp add: createWaitlistEntry_def Let_def)

lemma no_pending_cong:
  "waitlistEntries s = waitlistEntries st \<Longrightarrow> no_pending s = no_pending st"
  by (simp add: no_pending_def)

lemma waitlist_handler_state:
  "snd (waitlist_handler l e req s) = s \<or>
   (\<exists>entry. snd (waitlist_handler l e req s) = snd (createWaitlistEntry e entry s))"
proof (cases "insertWaitlistSchema_ok (body_name req) (body_email req) (body_interests req)")
  case False
  then show ?thesis by (simp add: waitlist_handler_def)
next
  case True
  show ?thesis
  proof (cases "getWaitlistEntryByEmail s (str_of (body_email req))")
    case (Some exists)
    with True show ?thesis by (simp add: waitlist_handler_def)
  next
    case None
    have "snd (waitlist_handler l e req s) =
        snd (createWaitlistEntry e
          \<lparr>ed_name = str_of (body_name req), ed_email = str_of (body_email req),
           ed_interests = (case body_interests req of Str i \<Rightarrow> Some i | _ \<Rightarrow> None),
           ed_emailVerified = None,
           ed_emailVerificationToken =
             Some (hashVerificationToken l (generateVerificationToken e)),
           ed_emailVerificationExpires = Some (createVerificationExpiry e)\<rparr> s)"
      unfolding waitlist_handler_def Let_def
      using True None by (simp add: split_beta)
    then show ?thesis by blast
  qed
qed

lemma waitlist_handler_no_pending:
  assumes inv: "no_pending s"
  shows "no_pending (snd (waitlist_handler l e req s))"
proof -
  have c: "no_pending (snd (createWaitlistEntry e entry s))" for entry
    unfolding no_pending_def
  proof
    fix x
    assume "x \<in> set (waitlistEntries (snd (createWaitlistEntry e entry s)))"
    from createWaitlistEntry_set [OF this]
    show "w_emailVerified (snd x) = None \<and> w_emailVerificationToken (snd x) = None \<and>
        w_emailVerificationExpires (snd x) = None"
    proof
      assume "x = (ed_email entry, fst (createWaitlistEntry e entry s))"
      with createWaitlistEntry_unverified [of e entry s] show ?thesis by simp
    next
      assume "x \<in> set (waitlistEntries s)"
      with inv show ?thesis unfolding no_pending_def by blast
    qed
  qed
  from waitlist_handler_state [of l e req s] show ?thesis
  proof
    assume "snd (waitlist_handler l e req s) = s"
    with inv show ?thesis by simp
  next
    assume "\<exists>entry. snd (waitlist_handler l e req s) = snd (createWaitlistEntry e entry s)"
    then obtain entry where "snd (waitlist_handler l e req s) = snd (createWaitlistEntry e entry s)"
      by blast
    with c [of entry] show ?thesis by simp
  qed
qed

lemma no_pending_lookup:
  assumes "no_pending s" and "getWaitlistEntryByEmail s m = Some entry"
  shows "\<not> truthy (w_emailVerificationToken entry)"
proof -
  from assms(2) have "(m, entry) \<in> set (waitlistEntries s)"
    by (simp add: getWaitlistEntryByEmail_def map_of_SomeD)
  with assms(1) have "w_emailVerificationToken entry = None"
    by (auto simp add: no_pending_def)
  then show ?thesis by simp
qed

lemma verify_waitlist_no_pending:
  assumes "no_pending s"
  shows "snd (verify_waitlist_handler l e req s) = s"
proof (cases "\<not> falsy (query_token req) \<and> \<not> falsy (query_email req)")
  case False
  then show ?thesis by (auto simp add: verify_waitlist_handler_def)
next
  case True
  then have t: "\<not> falsy (query_token req)" "\<not> falsy (query_email req)" by simp_all
  have "\<not> truthy (w_emailVerificationToken entry)"
    if "query_email req = Str m" and "getWaitlistEntryByEmail s m = Some entry" for m entry
    using assms that(2) by (rule no_pending_lookup)
  with t have "verify_waitlist_handler l e req s =
      (Respond \<lparr>status = 404, body = message_body ''Invalid verification link''\<rparr>, s)"
    by (rule verify_waitlist_not_pending)
  then show ?thesis by simp
qed


lemma register_handler_waitlist:
  "waitlistEntries (snd (register_handler cfg l e req s)) = waitlistEntries s"
  using register_handler_outcome [of cfg l e req s "fst (register_handler cfg l e req s)"
      "snd (register_handler cfg l e req s)"]
  by auto

lemma login_handler_state: "snd (login_handler cfg l e req s) = s"
  unfolding login_handler_def Let_def
  by (simp split: option.split sum.split)

lemma login_handler_waitlist:
  "waitlistEntries (snd (login_handler cfg l e req s)) = waitlistEntries s"
  by (simp add: login_handler_state)

lemma verify_registration_handler_waitlist:
  "waitlistEntries (snd (verify_registration_handler l e req s)) = waitlistEntries s"
  unfolding verify_registration_handler_def Let_def
  by (simp add: updateUserVerification_def split: option.split sum.split jsval.split)

lemma run_chain_handler_no_pending:
  assumes fr: "\<And>m rq s. m \<in> set ms \<Longrightarrow>
             users (snd (m rq s)) = users s \<and> waitlistEntries (snd (m rq s)) = waitlistEntries s"
      and h: "\<And>s. no_pending s \<Longrightarrow> no_pending (snd (h req s))"
      and inv: "no_pending st"
  shows "no_pending (snd (run_chain (ms @ [h]) req st))"
proof -
  obtain out st' where r: "run_chain (ms @ [h]) req st = (out, st')"
    by (cases "run_chain (ms @ [h]) req st")
  have "users (snd (run_chain ms req st)) = users st \<and>
      waitlistEntries (snd (run_chain ms req st)) = waitlistEntries st"
    by (rule run_chain_frame) (rule fr)
  then have f: "waitlistEntries (snd (run_chain ms req st)) = waitlistEntries st"
    by (rule conjunct2)
  from run_chain_append_handler [OF r] show ?thesis
  proof
    assume "\<exists>s. run_chain ms req st = (Next, s) \<and> h req s = (out, st')"
    then obtain s where s: "run_chain ms req st = (Next, s)" and hs: "h req s = (out, st')"
      by blast
    from f s have "waitlistEntries s = waitlistEntries st" by simp
    with inv have "no_pending s" by (simp add: no_pending_def)
    from h [OF this] hs r show ?thesis by simp
  next
    assume "out \<noteq> Next \<and> run_chain ms req st = (out, st')"
    with f have "waitlistEntries st' = waitlistEntries st" by simp
    with inv r show ?thesis by (simp add: no_pending_def)
  qed
qed

lemma serve_no_pending:
  assumes "no_pending st"
  shows "no_pending (snd (serve cfg l c st))"
proof -
  obtain r e req where c: "c = (r, e, req)" by (cases c)
  let ?pub = "\<lambda>mx. api_middleware e @
        [on_ipRequestCounts (strictRateLimitByIP mx (60 * 60 * 1000) (now e)),
         stateless (requireApiKey cfg), stateless (validateOrigin cfg l)]"
  have pub: "users (snd (m rq s)) = users s \<and> waitlistEntries (snd (m rq s)) = waitlistEntries s"
    if "m \<in> set (?pub mx)" for m rq s mx
    using that by (rule public_gateway_frame)
  have api: "users (snd (m rq s)) = users s \<and> waitlistEntries (snd (m rq s)) = waitlistEntries s"
    if "m \<in> set (api_middleware e)" for m rq s
    using that by (rule api_middleware_frame)
  show ?thesis
  proof (cases r)
    case Register
    have h: "no_pending (snd (register_handler cfg l e req s))" if "no_pending s" for s
      using that by (simp add: no_pending_cong [OF register_handler_waitlist])
    have "no_pending (snd (run_chain (?pub 5 @ [register_handler cfg l e]) req st))"
      using pub h assms by (rule run_chain_handler_no_pending)
    with c Register show ?thesis by (simp add: register_route_def)
  next
    case Waitlist
    have h: "no_pending (snd (waitlist_handler l e req s))" if "no_pending s" for s
      using that by (rule waitlist_handler_no_pending)
    have "no_pending (snd (run_chain (?pub 10 @ [waitlist_handler l e]) req st))"
      using pub h assms by (rule run_chain_handler_no_pending)
    with c Waitlist show ?thesis by (simp add: waitlist_route_def)
  next
    case Login
    have h: "no_pending (snd (login_handler cfg l e req s))" if "no_pending s" for s
      using that by (simp add: no_pending_cong [OF login_handler_waitlist])
    have "no_pending (snd (run_chain (api_middleware e @ [login_handler cfg l e]) req st))"
      using api h assms by (rule run_chain_handler_no_pending)
    with c Login show ?thesis by (simp add: login_route_def)
  next
    case VerifyWaitlist
    have h: "no_pending (snd (verify_waitlist_handler l e req s))" if "no_pending s" for s
      using that by (simp add: verify_waitlist_no_pending)
    have "no_pending (snd (run_chain (api_middleware e @ [verify_waitlist_handler l e]) req st))"
      using api h assms by (rule run_chain_handler_no_pending)
    with c VerifyWaitlist show ?thesis by (simp add: verify_waitlist_route_def)
  next
    case VerifyRegistration
    have h: "no_pending (snd (verify_registration_handler l e req s))" if "no_pending s" for s
      using that by (simp add: no_pending_cong [OF verify_registration_handler_waitlist])
    have "no_pending (snd (run_chain (api_middleware e @ [verify_registration_handler l e])
        req st))"
      using api h assms by (rule run_chain_handler_no_pending)
    with c VerifyRegistration show ?thesis by (simp add: verify_registration_route_def)
  qed
qed

lemma serve_all_no_pending:
  "no_pending st \<Longrightarrow> no_pending (serve_all cfg l calls st)"
proof (induction calls arbitrary: st)
  case Nil
  then show ?case by simp
next
  case (Cons c calls)
  from serve_no_pending [OF Cons.prems] have "no_pending (snd (serve cfg l c st))" .
  from Cons.IH [OF this] show ?case by simp
qed

lemma initial_no_pending: "no_pending initial_state"
  by (simp add: no_pending_def initial_state_def)


text \<open>
  C10. \<open>MemStorage.createWaitlistEntry\<close> stores the verification hash and expiry as null
  whatever its input holds. So in every state that the server reaches from its start through
  requests to the modelled routes, no waitlist entry is verified or holds a hash, and every
  request to \<open>/api/verify-waitlist\<close> that carries a token and an email (truthy values,
  strings or not) is answered by the handler with 404 "Invalid verification link" and leaves
  the state as it is.
\<close>

theorem memstorage_waitlist_never_verified:
  "(w_emailVerificationToken (fst (createWaitlistEntry e entry st)) = None \<and>
    w_emailVerificationExpires (fst (createWaitlistEntry e entry st)) = None \<and>
    getWaitlistEntryByEmail (snd (createWaitlistEntry e entry st)) (ed_email entry) =
      Some (fst (createWaitlistEntry e entry st))) \<and>
   (\<forall>x\<in>set (waitlistEntries (serve_all cfg l calls initial_state)).
      w_emailVerified (snd x) = None \<and> w_emailVerificationToken (snd x) = None \<and>
      w_emailVerificationExpires (snd x) = None) \<and>
   (\<forall>e' req. \<not> falsy (query_token req) \<and> \<not> falsy (query_email req) \<longrightarrow>
      verify_waitlist_handler l e' req (serve_all cfg l calls initial_state) =
        (Respond \<lparr>status = 404, body = message_body ''Invalid verification link''\<rparr>,
         serve_all cfg l calls initial_state))"
proof (intro conjI allI impI)
  let ?S = "serve_all cfg l calls initial_state"
  have inv: "no_pending ?S"
    by (rule serve_all_no_pending) (rule initial_no_pending)
  from createWaitlistEntry_unverified [of e entry st]
  show "w_emailVerificationToken (fst (createWaitlistEntry e entry st)) = None"
    and "w_emailVerificationExpires (fst (createWaitlistEntry e entry st)) = None"
    and "getWaitlistEntryByEmail (snd (createWaitlistEntry e entry st)) (ed_email entry) =
      Some (fst (createWaitlistEntry e entry st))"
    by simp_all
  from inv show "\<forall>x\<in>set (waitlistEntries ?S).
      w_emailVerified (snd x) = None \<and> w_emailVerificationToken (snd x) = None \<and>
      w_emailVerificationExpires (snd x) = None"
    by (simp add: no_pending_def)
  fix e' and req :: request
  assume "\<not> falsy (query_token req) \<and> \<not> falsy (query_email req)"
  then have t: "\<not> falsy (query_token req)" "\<not> falsy (query_email req)" by simp_all
  have "\<not> truthy (w_emailVerificationToken entry)"
    if "query_email req = Str m" and "getWaitlistEntryByEmail ?S m = Some entry" for m entry
    using inv that(2) by (rule no_pending_lookup)
  with t show "verify_waitlist_handler l e' req ?S =
        (Respond \<lparr>status = 404, body = message_body ''Invalid verification link''\<rparr>, ?S)"
    by (rule verify_waitlist_not_pending)
qed

lemma sample_waitlist_route:
  "snd (waitlist_route dev_config stand_in_lib (sample_env 0) sample_waitlist_request
          initial_state) =
     initial_state
       \<lparr>userRequestCounts := [''203.0.113.7'' \<mapsto> \<lparr>count = 1, resetTime = 900000\<rparr>],
        ipRequestCounts := [''203.0.113.7'' \<mapsto> \<lparr>count = 1, resetTime = 3600000\<rparr>],
        waitlistEntries := [(''ann@example.com'', pending_entry None None)]\<rparr>"
proof -
  let ?req = "sample_waitlist_request"
  let ?l = stand_in_lib
  let ?s1 = "initial_state
      \<lparr>userRequestCounts := [''203.0.113.7'' \<mapsto> \<lparr>count = 1, resetTime = 900000\<rparr>]\<rparr>"
  let ?s2 = "initial_state
      \<lparr>userRequestCounts := [''203.0.113.7'' \<mapsto> \<lparr>count = 1, resetTime = 900000\<rparr>],
       ipRequestCounts := [''203.0.113.7'' \<mapsto> \<lparr>count = 1, resetTime = 3600000\<rparr>]\<rparr>"
  have a: "stateless logAuthenticatedRequest ?req initial_state = (Next, initial_state)"
    by (simp add: stateless_def logAuthenticatedRequest_def)
  have b: "on_userRequestCounts (rateLimitByUser 100 (15 * 60 * 1000) (now (sample_env 0)))
             ?req initial_state = (Next, ?s1)"
    by (simp add: on_userRequestCounts_def rateLimitByUser_def sample_env_def
        sample_waitlist_request_def blank_request_def initial_state_def)
  have c: "on_ipRequestCounts (strictRateLimitByIP 10 (60 * 60 * 1000) (now (sample_env 0)))
             ?req ?s1 = (Next, ?s2)"
    by (simp add: on_ipRequestCounts_def strictRateLimitByIP_def clientIP_def sample_env_def
        sample_waitlist_request_def blank_request_def initial_state_def)
  have d: "stateless (requireApiKey dev_config) ?req ?s2 = (Next, ?s2)"
    by (simp add: stateless_def requireApiKey_def dev_config_def sample_waitlist_request_def
        blank_request_def)
  have e: "stateless (validateOrigin dev_config ?l) ?req ?s2 = (Next, ?s2)"
    by (simp add: stateless_def validateOrigin_def dev_config_def sample_waitlist_request_def
        blank_request_def)
  have g: "waitlist_route dev_config ?l (sample_env 0) ?req initial_state =
      waitlist_handler ?l (sample_env 0) ?req ?s2"
    unfolding waitlist_route_def api_middleware_def append.simps
    by (simp only:
        run_chain_Next [of "stateless logAuthenticatedRequest" ?req initial_state initial_state,
          OF a]
        run_chain_Next [of "on_userRequestCounts
            (rateLimitByUser 100 (15 * 60 * 1000) (now (sample_env 0)))" ?req initial_state ?s1,
          OF b]
        run_chain_Next [of "on_ipRequestCounts
            (strictRateLimitByIP 10 (60 * 60 * 1000) (now (sample_env 0)))" ?req ?s1 ?s2, OF c]
        run_chain_Next [of "stateless (requireApiKey dev_config)" ?req ?s2 ?s2, OF d]
        run_chain_Next [of "stateless (validateOrigin dev_config ?l)" ?req ?s2 ?s2, OF e]
        run_chain_single)
  have shape: "emailRegex_test ''ann@example.com''"
    by code_simp
  have ok: "insertWaitlistSchema_ok (body_name ?req) (body_email ?req) (body_interests ?req)"
    using shape
    by (simp add: insertWaitlistSchema_ok_def sample_waitlist_request_def blank_request_def)
  have none: "getWaitlistEntryByEmail ?s2 (str_of (body_email ?req)) = None"
    by (simp add: getWaitlistEntryByEmail_def initial_state_def)
  have "snd (waitlist_handler ?l (sample_env 0) ?req ?s2) =
      snd (createWaitlistEntry (sample_env 0)
          \<lparr>ed_name = str_of (body_name ?req), ed_email = str_of (body_email ?req),
           ed_interests = (case body_interests ?req of Str i \<Rightarrow> Some i | _ \<Rightarrow> None),
           ed_emailVerified = None,
           ed_emailVerificationToken =
             Some (hashVerificationToken ?l (generateVerificationToken (sample_env 0))),
           ed_emailVerificationExpires = Some (createVerificationExpiry (sample_env 0))\<rparr> ?s2)"
    unfolding waitlist_handler_def Let_def
    using ok none by (simp add: split_beta)
  also have "\<dots> = initial_state
       \<lparr>userRequestCounts := [''203.0.113.7'' \<mapsto> \<lparr>count = 1, resetTime = 900000\<rparr>],
        ipRequestCounts := [''203.0.113.7'' \<mapsto> \<lparr>count = 1, resetTime = 3600000\<rparr>],
        waitlistEntries := [(''ann@example.com'', pending_entry None None)]\<rparr>"
    by (simp add: createWaitlistEntry_def Let_def sample_waitlist_request_def blank_request_def
        sample_env_def initial_state_def pending_entry_def)
  finally show ?thesis
    unfolding g .
qed

text \<open>Ann joins the waitlist and follows the link that was mailed to her.\<close>

theorem memstorage_waitlist_never_verified_witness:
  "getWaitlistEntryByEmail
     (serve_all dev_config stand_in_lib [(Waitlist, sample_env 0, sample_waitlist_request)]
        initial_state) ''ann@example.com'' = Some (pending_entry None None) \<and>
   verify_waitlist_handler stand_in_lib (sample_env 5)
       (sample_verify_request ''c0ffee'' ''ann@example.com'')
       (serve_all dev_config stand_in_lib [(Waitlist, sample_env 0, sample_waitlist_request)]
          initial_state) =
     (Respond \<lparr>status = 404, body = message_body ''Invalid verification link''\<rparr>,
      serve_all dev_config stand_in_lib [(Waitlist, sample_env 0, sample_waitlist_request)]
        initial_state) \<and>
   w_emailVerified (pending_entry None None) = None \<and>
   w_emailVerificationToken (pending_entry None None) = None \<and>
   w_emailVerificationToken
     (fst (createWaitlistEntry (sample_env 0)
             \<lparr>ed_name = ''Ann'', ed_email = ''ann@example.com'', ed_interests = None,
              ed_emailVerified = None, ed_emailVerificationToken = Some ''abc'',
              ed_emailVerificationExpires = Some 86400000\<rparr> initial_state)) = None"
proof -
  let ?calls = "[(Waitlist, sample_env 0, sample_waitlist_request)]"
  let ?S = "serve_all dev_config stand_in_lib ?calls initial_state"
  note t = memstorage_waitlist_never_verified [of "sample_env 0"
      "\<lparr>ed_name = ''Ann'', ed_email = ''ann@example.com'', ed_interests = None,
        ed_emailVerified = None, ed_emailVerificationToken = Some ''abc'',
        ed_emailVerificationExpires = Some 86400000\<rparr>" initial_state
      dev_config stand_in_lib ?calls]
  note 4 = t [THEN conjunct1, THEN conjunct1]
  have S: "?S = initial_state
       \<lparr>userRequestCounts := [''203.0.113.7'' \<mapsto> \<lparr>count = 1, resetTime = 900000\<rparr>],
        ipRequestCounts := [''203.0.113.7'' \<mapsto> \<lparr>count = 1, resetTime = 3600000\<rparr>],
        waitlistEntries := [(''ann@example.com'', pending_entry None None)]\<rparr>"
    by (simp add: sample_waitlist_route)
  have 1: "getWaitlistEntryByEmail ?S ''ann@example.com'' = Some (pending_entry None None)"
    unfolding S by (simp add: getWaitlistEntryByEmail_def)
  then have m: "(''ann@example.com'', pending_entry None None) \<in> set (waitlistEntries ?S)"
    by (simp add: getWaitlistEntryByEmail_def map_of_SomeD)
  from t [THEN conjunct2, THEN conjunct1, rule_format, OF m]
  have 3: "w_emailVerified (pending_entry None None) = None \<and>
      w_emailVerificationToken (pending_entry None None) = None"
    by simp
  have 2: "verify_waitlist_handler stand_in_lib (sample_env 5)
       (sample_verify_request ''c0ffee'' ''ann@example.com'') ?S =
     (Respond \<lparr>status = 404, body = message_body ''Invalid verification link''\<rparr>, ?S)"
    by (rule t [THEN conjunct2, THEN conjunct2, rule_format])
      (simp add: sample_verify_query)
  from 1 2 3 4 show ?thesis by (simp only: simp_thms)
qed


section \<open>The general limiter\<close>

text \<open>
  \<open>rateLimitByUser\<close> follows the same fixed window as \<open>strictRateLimitByIP\<close>, keyed by
  the user's id, else the address, else \<open>anonymous\<close>: a new window on the first request or
  when \<open>now > resetTime\<close>, one more count below the limit, and 429 with the map untouched
  at the limit.
\<close>

theorem rateLimitByUser_fixed_window:
  "(let k = or_else (map_option claim_id (user req)) (or_else (ip req) ''anonymous'') in
      (m k = None \<or> (\<exists>w. m k = Some w \<and> resetTime w < t) \<longrightarrow>
         rateLimitByUser mx win t req m = (Next, m(k \<mapsto> \<lparr>count = 1, resetTime = t + win\<rparr>))) \<and>
      (\<forall>w. m k = Some w \<and> t \<le> resetTime w \<and> count w < mx \<longrightarrow>
         rateLimitByUser mx win t req m = (Next, m(k \<mapsto> w\<lparr>count := count w + 1\<rparr>))) \<and>
      (\<forall>w. m k = Some w \<and> t \<le> resetTime w \<and> mx \<le> count w \<longrightarrow>
         rateLimitByUser mx win t req m =
           (Respond (user_limit_response (ceil_div_1000 (resetTime w - t))), m) \<and>
         status (user_limit_response (ceil_div_1000 (resetTime w - t))) = 429))"
  by (auto simp add: rateLimitByUser_def Let_def user_limit_status)

text \<open>A first request, a second one, and the hundred-and-first exactly at the reset time.\<close>

theorem rateLimitByUser_fixed_window_witness:
  "rateLimitByUser 100 900000 0 (blank_request\<lparr>ip := Some ''203.0.113.7''\<rparr>) Map.empty =
     (Next, [''203.0.113.7'' \<mapsto> \<lparr>count = 1, resetTime = 900000\<rparr>]) \<and>
   rateLimitByUser 100 900000 5 (blank_request\<lparr>ip := Some ''203.0.113.7''\<rparr>)
       [''203.0.113.7'' \<mapsto> \<lparr>count = 1, resetTime = 900000\<rparr>] =
     (Next, [''203.0.113.7'' \<mapsto> \<lparr>count = 2, resetTime = 900000\<rparr>]) \<and>
   rateLimitByUser 100 900000 900000 (blank_request\<lparr>ip := Some ''203.0.113.7''\<rparr>)
       [''203.0.113.7'' \<mapsto> \<lparr>count = 100, resetTime = 900000\<rparr>] =
     (Respond (user_limit_response 0), [''203.0.113.7'' \<mapsto> \<lparr>count = 100, resetTime = 900000\<rparr>])"
proof -
  let ?req = "blank_request\<lparr>ip := Some ''203.0.113.7''\<rparr>"
  have k: "or_else (map_option claim_id (user ?req)) (or_else (ip ?req) ''anonymous'') =
      ''203.0.113.7''"
    by (simp add: blank_request_def)
  have z: "ceil_div_1000 0 = 0" by (simp add: ceil_div_1000_def)
  note a = rateLimitByUser_fixed_window [of ?req Map.empty 0 100 900000, unfolded Let_def k,
      THEN conjunct1]
  note b = rateLimitByUser_fixed_window [of ?req
      "[''203.0.113.7'' \<mapsto> \<lparr>count = 1, resetTime = 900000\<rparr>]" 5 100 900000,
      unfolded Let_def k, THEN conjunct2, THEN conjunct1, THEN spec,
      of "\<lparr>count = 1, resetTime = 900000\<rparr>"]
  note c = rateLimitByUser_fixed_window [of ?req
      "[''203.0.113.7'' \<mapsto> \<lparr>count = 100, resetTime = 900000\<rparr>]" 900000 100 900000,
      unfolded Let_def k, THEN conjunct2, THEN conjunct2, THEN spec,
      of "\<lparr>count = 100, resetTime = 900000\<rparr>"]
  from a have 1: "rateLimitByUser 100 900000 0 ?req Map.empty =
      (Next, [''203.0.113.7'' \<mapsto> \<lparr>count = 1, resetTime = 900000\<rparr>])"
    by simp
  from b have 2: "rateLimitByUser 100 900000 5 ?req
       [''203.0.113.7'' \<mapsto> \<lparr>count = 1, resetTime = 900000\<rparr>] =
     (Next, [''203.0.113.7'' \<mapsto> \<lparr>count = 2, resetTime = 900000\<rparr>])"
    by simp
  from c z have 3: "rateLimitByUser 100 900000 900000 ?req
       [''203.0.113.7'' \<mapsto> \<lparr>count = 100, resetTime = 900000\<rparr>] =
     (Respond (user_limit_response 0), [''203.0.113.7'' \<mapsto> \<lparr>count = 100, resetTime = 900000\<rparr>])"
    by simp
  from 1 2 3 show ?thesis by (simp only: simp_thms)
qed

end
